theory Spec2Isabelle
  imports
    Main
    "HOL-Library.Multiset"
    "HOL-Library.Char_ord"
    "HOL-Library.List_Lexorder"
    "HOL-Library.Product_Lexorder"
begin

section \<open>Strings\<close>

text \<open>
  A \<^verbatim>\<open>QString\<close> is modelled as a \<^typ>\<open>string\<close>, a \<^verbatim>\<open>QStringList\<close> as a
  \<^typ>\<open>string list\<close>.  The comparison \<^verbatim>\<open>operator<\<close> of \<^verbatim>\<open>QString\<close> is the
  lexicographic order of the code units, which is the order of \<^typ>\<open>string\<close> here.
\<close>

definition nl :: string where
  "nl = [CHR 0x0A]"

definition tab :: string where
  "tab = [CHR 0x09]"

definition dquote :: string where
  "dquote = [CHR 0x22]"

definition squote :: char where
  "squote = CHR 0x27"

text \<open>\<^verbatim>\<open>QChar::toUpper\<close>, on the ASCII letters; every other character is left as it is.\<close>

definition toUpper :: "char \<Rightarrow> char" where
  "toUpper c = (let n = (of_char c :: nat) in if 97 \<le> n \<and> n \<le> 122 then char_of (n - 32) else c)"

text \<open>
  \<^verbatim>\<open>s[0] = s[0].toUpper()\<close> and \<^verbatim>\<open>word[0].toUpper() + word.mid(1)\<close>: position 0 of an
  empty string is out of range (an assertion of \<^verbatim>\<open>QString::operator[]\<close>), which is \<open>None\<close>.
\<close>

definition upperFirst :: "string \<Rightarrow> string option" where
  "upperFirst s = (case s of [] \<Rightarrow> None | c # cs \<Rightarrow> Some (toUpper c # cs))"

text \<open>\<^verbatim>\<open>QString::remove(QChar)\<close> removes every occurrence of the character.\<close>

definition removeChar :: "char \<Rightarrow> string \<Rightarrow> string" where
  "removeChar c s = filter (\<lambda>x. x \<noteq> c) s"

text \<open>
  \<^verbatim>\<open>QString::remove(const QString &)\<close> removes every occurrence of the pattern, found from
  left to right without overlap; an empty pattern removes nothing.
\<close>

function removeStr :: "string \<Rightarrow> string \<Rightarrow> string" where
  "removeStr pat [] = []"
| "removeStr pat (c # cs) =
     (if pat \<noteq> [] \<and> take (length pat) (c # cs) = pat
      then removeStr pat (drop (length pat) (c # cs))
      else c # removeStr pat cs)"
  by pat_completeness auto
termination
  by (relation "measure (\<lambda>(pat, s). length s)") auto

text \<open>\<^verbatim>\<open>QStringList::join\<close>.\<close>

fun join :: "string \<Rightarrow> string list \<Rightarrow> string" where
  "join sep [] = []"
| "join sep [x] = x"
| "join sep (x # y # ys) = x @ sep @ join sep (y # ys)"

text \<open>\<^verbatim>\<open>QString::split(QChar)\<close>, which keeps the empty parts: the result is never empty.\<close>

fun split :: "char \<Rightarrow> string \<Rightarrow> string list" where
  "split c [] = [[]]"
| "split c (x # xs) =
     (if x = c then [] # split c xs
      else (case split c xs of [] \<Rightarrow> [[x]] | w # ws \<Rightarrow> (x # w) # ws))"

text \<open>\<^verbatim>\<open>QString::startsWith(QChar)\<close>.\<close>

definition startsWith :: "char \<Rightarrow> string \<Rightarrow> bool" where
  "startsWith c s = (case s of [] \<Rightarrow> False | x # _ \<Rightarrow> x = c)"

text \<open>\<^verbatim>\<open>QString::replace(QChar, QChar)\<close>.\<close>

definition replaceChar :: "char \<Rightarrow> char \<Rightarrow> string \<Rightarrow> string" where
  "replaceChar a b s = map (\<lambda>x. if x = a then b else x) s"

text \<open>
  \<^verbatim>\<open>QStringList::removeAll\<close>, applied for every name of a list:
  \<^verbatim>\<open>for (name : names) dependencies.removeAll(name)\<close>.
\<close>

definition removeAllNames :: "string list \<Rightarrow> string list \<Rightarrow> string list" where
  "removeAllNames names deps = filter (\<lambda>d. d \<notin> set names) deps"

text \<open>
  \<^verbatim>\<open>std::stable_partition\<close>: the elements that satisfy the predicate, then the others,
  each group in its former order.
\<close>

definition stable_partition :: "('a \<Rightarrow> bool) \<Rightarrow> 'a list \<Rightarrow> 'a list \<times> 'a list" where
  "stable_partition P xs = (filter P xs, filter (\<lambda>x. \<not> P x) xs)"


text \<open>
  \<^verbatim>\<open>std::ranges::remove_if\<close> with a set that records the names seen so far, then
  \<^verbatim>\<open>erase\<close>: of the elements of one name only the first stays.
\<close>

fun removeDuplicates :: "('a \<Rightarrow> string) \<Rightarrow> string list \<Rightarrow> 'a list \<Rightarrow> 'a list" where
  "removeDuplicates nm seen [] = []"
| "removeDuplicates nm seen (e # es) =
     (if nm e \<in> set seen then removeDuplicates nm seen es
      else e # removeDuplicates nm (nm e # seen) es)"

section \<open>The data of the table-driven writer (\<^verbatim>\<open>SpecWriter\<close>)\<close>

text \<open>
  Modelled from the spec: the declaration of \<^verbatim>\<open>Data\<close> (\<^verbatim>\<open>specwriter.h\<close>) is not part of
  the sources at hand; the fields below are those that \<^verbatim>\<open>specwriter.cpp\<close> reads and writes.
\<close>

record DataNotification =
  n_method :: string
  n_params :: string

record DataRequest =
  r_method :: string
  r_params :: string
  r_result :: string
  r_error :: string

record DataValue =
  v_name :: string
  v_value :: string
  v_comment :: string

record DataEnumeration =
  e_name :: string
  e_comment :: string
  e_isString :: bool
  e_values :: "DataValue list"

record DataType =
  t_name :: string
  t_comment :: string
  t_dataType :: string
  t_dependencies :: "string list"

record DataProperty =
  p_name :: string
  p_dataType :: string
  p_comment :: string

datatype DataInterface =
  DataInterface
    (i_name: string)
    (i_comment: string)
    (i_extends: "string list")
    (i_properties: "DataProperty list")
    (i_children: "DataInterface list")
    (i_dependencies: "string list")

record Data =
  d_notifications :: "DataNotification list"
  d_requests :: "DataRequest list"
  d_enumerations :: "DataEnumeration list"
  d_types :: "DataType list"
  d_interfaces :: "DataInterface list"

section \<open>Notifications and requests\<close>

definition methodToName :: "string \<Rightarrow> string option" where
  "methodToName method =
     (case split (CHR ''/'') method of
        [] \<Rightarrow> None
      | first # rest \<Rightarrow>
          (let names = (if first = ''$'' \<or> first = ''window'' \<or> first = ''client''
                        then rest else first # rest)
           in fold (\<lambda>word acc. case acc of None \<Rightarrow> None
                      | Some name \<Rightarrow> (case upperFirst word of None \<Rightarrow> None
                          | Some w \<Rightarrow> Some (name @ w)))
                names (Some [])))"

definition NotificationHeader :: "string \<Rightarrow> string" where
  "NotificationHeader text =
     ''// File generated by spec2cpp tool'' @ nl @
     ''// DO NOT MAKE ANY CHANGES HERE'' @ nl @ nl @
     ''#pragma once'' @ nl @ nl @
     ''#include '' @ dquote @ ''notificationmessage.h'' @ dquote @ nl @
     ''#include '' @ dquote @ ''types.h'' @ dquote @ nl @ nl @
     ''namespace Lsp {'' @ nl @ text @ nl @ ''}'' @ nl"

definition NotificationImpl :: "string \<Rightarrow> string \<Rightarrow> string \<Rightarrow> string" where
  "NotificationImpl name method params =
     nl @ ''inline constexpr char '' @ name @ ''Name[] = '' @ dquote @ method @ dquote @ '';'' @ nl @
     ''struct '' @ name @ ''Notification : public NotificationMessage<'' @ name @ ''Name, '' @
       params @ ''>'' @ nl @ ''{};'' @ nl"

definition RequestHeader :: "string \<Rightarrow> string" where
  "RequestHeader text =
     ''// File generated by spec2cpp tool'' @ nl @
     ''// DO NOT MAKE ANY CHANGES HERE'' @ nl @ nl @
     ''#pragma once'' @ nl @ nl @
     ''#include '' @ dquote @ ''requestmessage.h'' @ dquote @ nl @
     ''#include '' @ dquote @ ''types.h'' @ dquote @ nl @ nl @
     ''namespace Lsp {'' @ nl @ text @ nl @ ''}'' @ nl"

definition RequestImpl :: "string \<Rightarrow> string \<Rightarrow> string \<Rightarrow> string \<Rightarrow> string \<Rightarrow> string" where
  "RequestImpl name method params result err =
     nl @ ''inline constexpr char '' @ name @ ''Name[] = '' @ dquote @ method @ dquote @ '';'' @ nl @
     ''struct '' @ name @ ''Request : public RequestMessage<'' @ name @ ''Name, '' @
       params @ '', '' @ result @ '', '' @ err @ ''>'' @ nl @ ''{};'' @ nl"

section \<open>The table-driven writer\<close>

subsection \<open>Enumerations\<close>

definition EnumImpl :: "string \<Rightarrow> string \<Rightarrow> string \<Rightarrow> string" where
  "EnumImpl comment name content =
     nl @ comment @ ''enum class '' @ name @ '' {'' @ nl @ content @ ''};'' @ nl"

definition EnumJsonImpl :: "string \<Rightarrow> string \<Rightarrow> string" where
  "EnumJsonImpl name content =
     nl @ ''JSONIFY_ENUM( '' @ name @ '', {'' @ nl @ content @ ''})'' @ nl"

definition writeEnums :: "DataEnumeration list \<Rightarrow> string" where
  "writeEnums enums =
     concat (map (\<lambda>enumeration.
       EnumImpl (e_comment enumeration) (e_name enumeration)
         (concat (map (\<lambda>v.
            if e_isString enumeration
            then v_comment v @ tab @ v_name v @ '','' @ nl
            else v_comment v @ tab @ v_name v @ '' = '' @ v_value v @ '','' @ nl)
          (e_values enumeration)))) enums)"

definition writeJsonEnums :: "DataEnumeration list \<Rightarrow> string" where
  "writeJsonEnums enums =
     concat (map (\<lambda>enumeration.
       if e_isString enumeration
       then EnumJsonImpl (e_name enumeration)
         (concat (map (\<lambda>v.
            ''    {'' @ e_name enumeration @ ''::'' @ v_name v @ '', '' @ dquote @ v_value v @
              dquote @ ''},'' @ nl)
          (e_values enumeration)))
       else []) enums)"

subsection \<open>Type aliases, properties and interfaces\<close>

definition typeExceptions :: "string set" where
  "typeExceptions = {''integer'', ''uinteger'', ''decimal''}"

definition TypeImpl :: "string \<Rightarrow> string \<Rightarrow> string \<Rightarrow> string" where
  "TypeImpl comment name dataType =
     nl @ comment @ ''using '' @ name @ '' = '' @ dataType @ '';'' @ nl"

definition writeType :: "DataType \<Rightarrow> string" where
  "writeType type =
     (if t_name type \<in> typeExceptions then []
      else TypeImpl (t_comment type) (t_name type) (t_dataType type))"

definition writeProperty :: "DataProperty \<Rightarrow> string \<Rightarrow> string" where
  "writeProperty property interface =
     (let name = removeStr ''readonly '' (p_name property);
          isOptional = (CHR ''?'' \<in> set (p_name property));
          isConstString = startsWith squote (p_dataType property);
          isPtr = (p_dataType property = interface)
      in if isPtr then
           p_comment property @ ''std::unique_ptr<'' @ p_dataType property @ ''> '' @
             removeChar (CHR ''?'') name @ '';'' @ nl
         else if isOptional then
           p_comment property @ ''std::optional<'' @ p_dataType property @ ''> '' @
             removeChar (CHR ''?'') name @ '';'' @ nl
         else if isConstString then
           p_comment property @ ''static inline const std::string '' @ name @ '' = '' @
             replaceChar squote (CHR 0x22) (p_dataType property) @ '';'' @ nl
         else p_comment property @ p_dataType property @ '' '' @ name @ '';'' @ nl)"

definition ChildInterfaceImpl :: "string \<Rightarrow> string \<Rightarrow> string" where
  "ChildInterfaceImpl name content = ''struct '' @ name @ '' {'' @ nl @ content @ ''};'' @ nl"

fun writeChildInterface :: "DataInterface \<Rightarrow> string list \<Rightarrow> string" where
  "writeChildInterface (DataInterface name comment extends properties children deps) parent =
     ChildInterfaceImpl name
       (concat (map (\<lambda>child. writeChildInterface child (parent @ [name])) children) @
        concat (map (\<lambda>property. writeProperty property name) properties))"

definition MainInterfaceImpl :: "string \<Rightarrow> string \<Rightarrow> string \<Rightarrow> string \<Rightarrow> string" where
  "MainInterfaceImpl comment name extends content =
     nl @ comment @ ''struct '' @ name @ extends @ '' {'' @ nl @ content @ ''};'' @ nl"

definition writeMainInterface :: "DataInterface \<Rightarrow> string" where
  "writeMainInterface interface =
     (let joined = join '', public '' (i_extends interface);
          extends = (if joined \<noteq> [] then '': public '' @ joined else joined)
      in MainInterfaceImpl (i_comment interface) (i_name interface) extends
           (concat (map (\<lambda>child. writeChildInterface child [i_name interface])
                      (i_children interface)) @
            concat (map (\<lambda>property. writeProperty property (i_name interface))
                      (i_properties interface))))"

subsection \<open>The emission loop\<close>

text \<open>
  One entry of the emission order: a type alias or an interface, as it is when it is written
  (its dependency list is empty by then).
\<close>

datatype DataEntity = TypeEntity DataType | InterfaceEntity DataInterface


definition pruneType :: "string list \<Rightarrow> DataType \<Rightarrow> DataType" where
  "pruneType names t = t\<lparr>t_dependencies := removeAllNames names (t_dependencies t)\<rparr>"

fun pruneInterface :: "string list \<Rightarrow> DataInterface \<Rightarrow> DataInterface" where
  "pruneInterface names (DataInterface name comment extends properties children deps) =
     DataInterface name comment extends properties children (removeAllNames names deps)"

text \<open>
  The \<^verbatim>\<open>while\<close> loop of \<^verbatim>\<open>SpecWriter::writeTypesAndInterfaces\<close>.  The state is the text
  written so far, the entities written so far, and the two ranges
  \<^verbatim>\<open>[startType, types.end())\<close> and \<^verbatim>\<open>[startStruct, interfaces.end())\<close>.  The loop has no
  other exit than both ranges being empty, so a run that never gets there is \<open>None\<close>.
\<close>

partial_function (option) writeLoop ::
  "string \<Rightarrow> DataEntity list \<Rightarrow> DataType list \<Rightarrow> DataInterface list
     \<Rightarrow> (string \<times> DataEntity list) option" where
  "writeLoop result written types interfaces =
     (if types = [] \<and> interfaces = [] then Some (result, written)
      else
        let (readyT, restT) =
              (if types \<noteq> [] then stable_partition (\<lambda>t. t_dependencies t = []) types
               else ([], []));
            (readyI, restI) =
              (if interfaces \<noteq> []
               then stable_partition (\<lambda>i. i_dependencies i = []) interfaces
               else ([], []));
            existingNames = map t_name readyT @ map i_name readyI
        in writeLoop
             (result @ concat (map writeType readyT) @ concat (map writeMainInterface readyI))
             (written @ map TypeEntity readyT @ map InterfaceEntity readyI)
             (map (pruneType existingNames) restT)
             (map (pruneInterface existingNames) restI))"

declare writeLoop.simps [code]





subsection \<open>JSON bindings\<close>

text \<open>
  \<^verbatim>\<open>interfaceProperties\<close> calls itself for every base that it finds among the top-level
  interfaces, and nothing bounds the depth (an interface that extends itself never returns).
  The first argument bounds the depth of the calls; \<open>None\<close> is a call chain deeper than that.
\<close>

definition ownProperties :: "DataInterface \<Rightarrow> string list" where
  "ownProperties interface =
     map (\<lambda>prop. removeStr ''readonly '' (removeChar (CHR ''?'') (p_name prop)))
       (i_properties interface)"

fun interfaceProperties ::
  "nat \<Rightarrow> DataInterface \<Rightarrow> DataInterface list \<Rightarrow> string list option" where
  "interfaceProperties 0 interface interfaces = None"
| "interfaceProperties (Suc depth) interface interfaces =
     fold (\<lambda>extend acc.
            case acc of None \<Rightarrow> None
            | Some properties \<Rightarrow>
                (case find (\<lambda>i. i_name i = extend) interfaces of
                   None \<Rightarrow> Some properties
                 | Some it \<Rightarrow>
                     (case interfaceProperties depth it interfaces of
                        None \<Rightarrow> None
                      | Some ps \<Rightarrow> Some (properties @ ps))))
       (i_extends interface) (Some (ownProperties interface))"

definition jsonExceptions :: "string set" where
  "jsonExceptions = {''SelectionRange'', ''FormattingOptions'', ''ChangeAnnotationsType''}"

fun writeJsonInterface ::
  "nat \<Rightarrow> DataInterface list \<Rightarrow> DataInterface \<Rightarrow> string list \<Rightarrow> string option" where
  "writeJsonInterface depth interfaces
       (DataInterface name comment extends properties children deps) parent0 =
     (let parent = parent0 @ [name] in
      if name \<in> jsonExceptions then Some (nl @ ''JSONIFY_FWD('' @ join ''::'' parent @ '')'' @ nl)
      else
        case interfaceProperties depth
               (DataInterface name comment extends properties children deps) interfaces of
          None \<Rightarrow> None
        | Some props \<Rightarrow>
            (case those (map (\<lambda>child. writeJsonInterface depth interfaces child parent) children) of
               None \<Rightarrow> None
             | Some cs \<Rightarrow>
                 Some ((if length parent = 1 then nl else []) @ concat cs @
                   (if props = [] then ''JSONIFY_EMPTY('' @ join ''::'' parent @ '')'' @ nl
                    else ''JSONIFY('' @ join ''::'' parent @ '', '' @ join '', '' props @ '')'' @ nl))))"

subsection \<open>Normalisation\<close>

definition specialEnumNames :: "string \<rightharpoonup> string" where
  "specialEnumNames = [''InitializeError'' \<mapsto> ''InitializeErrorCodes'']"

definition removeStructNames :: "string set" where
  "removeStructNames =
     {''Message'', ''RequestMessage'', ''ResponseMessage'', ''ResponseError'',
      ''NotificationMessage'', ''LSPObject'', ''T''}"

definition removeTypeNames :: "string set" where
  "removeTypeNames = {''LSPAny''}"

definition renameEnum :: "string \<Rightarrow> string" where
  "renameEnum name = (case specialEnumNames name of None \<Rightarrow> name | Some n \<Rightarrow> n)"

definition cleanValue :: "bool \<Rightarrow> DataValue \<Rightarrow> DataValue option" where
  "cleanValue isString v =
     (case upperFirst (v_name v) of
        None \<Rightarrow> None
      | Some name \<Rightarrow>
          if isString then Some (v\<lparr>v_name := name, v_value := removeChar squote (v_value v)\<rparr>)
          else (case upperFirst (v_value v) of
                  None \<Rightarrow> None
                | Some val \<Rightarrow> Some (v\<lparr>v_name := name, v_value := val\<rparr>)))"

definition cleanEnumeration :: "DataEnumeration \<Rightarrow> DataEnumeration option" where
  "cleanEnumeration e =
     (case those (map (cleanValue (e_isString e)) (e_values e)) of
        None \<Rightarrow> None
      | Some vs \<Rightarrow> Some (e\<lparr>e_name := renameEnum (e_name e), e_values := vs\<rparr>))"

text \<open>
  \<^verbatim>\<open>SpecWriter::cleanCode\<close>, which changes \<^verbatim>\<open>m_data\<close> in place: the result is the data
  afterwards, or \<open>None\<close> when an enumeration value has an empty name (or, in a numeric
  enumeration, an empty value), whose position 0 the code writes.
\<close>

definition cleanCode :: "Data \<Rightarrow> Data option" where
  "cleanCode d =
     (case those (map cleanEnumeration (removeDuplicates e_name [] (d_enumerations d))) of
        None \<Rightarrow> None
      | Some enums \<Rightarrow>
          (let ifaces = filter (\<lambda>i. i_name i \<notin> removeStructNames) (d_interfaces d);
               types1 = filter (\<lambda>t. t_name t \<notin> removeTypeNames) (d_types d);
               enumNames = map e_name enums;
               existingTypeNames = enumNames @ map i_name ifaces;
               types2 = filter (\<lambda>t. t_name t \<notin> set existingTypeNames) types1
           in Some (d\<lparr>d_enumerations := enums,
                      d_types := map (pruneType enumNames) types2,
                      d_interfaces := map (pruneInterface enumNames) ifaces\<rparr>)))"

subsection \<open>Writing the files\<close>

text \<open>
  The file system as the writer sees it: whether \<^verbatim>\<open>QFile::open\<close> succeeds on a path, and
  what the device keeps of a text that is streamed to it (all of it, or less when the write
  fails; the code never reads the status of the stream).  A function that saves files is
  \<^verbatim>\<open>void\<close> and throws nothing: its result here is the list of the files it has written
  when it returns, and \<open>None\<close> when it does not return.
\<close>

record Env =
  canOpen :: "string \<Rightarrow> bool"
  kept :: "string \<Rightarrow> string \<Rightarrow> string"

definition notificationsText :: "DataNotification list \<Rightarrow> string option" where
  "notificationsText ns =
     fold (\<lambda>notification acc.
            case acc of None \<Rightarrow> None
            | Some text \<Rightarrow>
                (case methodToName (n_method notification) of
                   None \<Rightarrow> None
                 | Some name \<Rightarrow>
                     Some (text @ NotificationImpl name (n_method notification)
                                    (n_params notification))))
       ns (Some [])"

definition saveNotifications :: "string \<Rightarrow> Env \<Rightarrow> Data \<Rightarrow> (string \<times> string) list option" where
  "saveNotifications LSP_SOURCE_PATH env d =
     (let file = LSP_SOURCE_PATH @ ''/notifications.h'' in
      if \<not> canOpen env file then Some []
      else (case notificationsText (d_notifications d) of
              None \<Rightarrow> None
            | Some text \<Rightarrow> Some [(file, kept env file (NotificationHeader text))]))"

definition requestsText :: "DataRequest list \<Rightarrow> string option" where
  "requestsText rs =
     fold (\<lambda>request acc.
            case acc of None \<Rightarrow> None
            | Some text \<Rightarrow>
                (case methodToName (r_method request) of
                   None \<Rightarrow> None
                 | Some name \<Rightarrow>
                     Some (text @ RequestImpl name (r_method request) (r_params request)
                                    (r_result request) (r_error request))))
       rs (Some [])"

definition saveRequests :: "string \<Rightarrow> Env \<Rightarrow> Data \<Rightarrow> (string \<times> string) list option" where
  "saveRequests LSP_SOURCE_PATH env d =
     (let file = LSP_SOURCE_PATH @ ''/requests.h'' in
      if \<not> canOpen env file then Some []
      else (case requestsText (d_requests d) of
              None \<Rightarrow> None
            | Some text \<Rightarrow> Some [(file, kept env file (RequestHeader text))]))"

section \<open>The data of the meta-model writer (\<^verbatim>\<open>MetaSpecWriter\<close>)\<close>

text \<open>
  Modelled from the spec: the declaration of \<^verbatim>\<open>MetaData\<close> is not part of the sources at
  hand.  A \<^verbatim>\<open>MetaData::Type\<close> has the fields and methods that \<^verbatim>\<open>specwriter.cpp\<close> uses:
  \<^verbatim>\<open>name\<close>, \<^verbatim>\<open>documentation\<close>, \<^verbatim>\<open>kind\<close>, \<^verbatim>\<open>value\<close>, \<^verbatim>\<open>items\<close>, \<^verbatim>\<open>dependencies\<close>,
  \<^verbatim>\<open>is_deprecated()\<close>, \<^verbatim>\<open>since\<close> (the introduction version, a string compared with
  \<^verbatim>\<open>operator<\<close>), \<^verbatim>\<open>is_interface()\<close>, and for an interface \<^verbatim>\<open>extends\<close>.  Of the kinds only
  \<^verbatim>\<open>Reference\<close>, \<^verbatim>\<open>Or\<close> and \<^verbatim>\<open>StringLiteral\<close> are told apart by the code.  The objects are
  held by shared pointers in the source and are values here: what the code changes in an
  object (the order of \<^verbatim>\<open>items\<close>, \<^verbatim>\<open>value\<close>, \<^verbatim>\<open>documentation\<close>, \<^verbatim>\<open>dependencies\<close>) is returned
  where a later step reads it.
\<close>

datatype TypeKind = Kind_Reference | Kind_Or | Kind_StringLiteral | Kind_Other

datatype MetaType =
  MetaType
    (m_name: string)
    (m_documentation: string)
    (m_kind: TypeKind)
    (m_value: string)
    (m_items: "MetaType list")
    (m_dependencies: "string list")
    (m_is_deprecated: bool)
    (m_since: string)
    (m_is_interface: bool)
    (m_extends: "MetaType list")

datatype EnumerationType = Enum_String | Enum_Numeric

record MetaValue =
  mv_name :: string
  mv_value :: string
  mv_documentation :: string

record MetaEnumeration =
  me_name :: string
  me_documentation :: string
  me_type :: EnumerationType
  me_values :: "MetaValue list"

record MetaNotification =
  mn_name :: string
  mn_params :: "MetaType option"

record MetaRequest =
  mr_name :: string
  mr_params :: "MetaType option"
  mr_result :: "MetaType option"
  mr_error :: string

record MetaData =
  md_notifications :: "MetaNotification list"
  md_requests :: "MetaRequest list"
  md_enumerations :: "MetaEnumeration list"
  md_types :: "MetaType list"
  md_interfaces :: "MetaType list"

section \<open>The meta-model writer\<close>

subsection \<open>Enumerations and type aliases\<close>

definition Meta_writeEnums :: "MetaEnumeration list \<Rightarrow> string" where
  "Meta_writeEnums enums =
     concat (map (\<lambda>enumeration.
       EnumImpl (me_documentation enumeration) (me_name enumeration)
         (concat (map (\<lambda>v.
            if me_type enumeration = Enum_String
            then mv_documentation v @ tab @ mv_name v @ '','' @ nl
            else mv_documentation v @ tab @ mv_name v @ '' = '' @ mv_value v @ '','' @ nl)
          (me_values enumeration)))) enums)"

definition Meta_writeJsonEnums :: "MetaEnumeration list \<Rightarrow> string" where
  "Meta_writeJsonEnums enums =
     concat (map (\<lambda>enumeration.
       if me_type enumeration = Enum_String
       then EnumJsonImpl (me_name enumeration)
         (concat (map (\<lambda>v.
            ''    {'' @ me_name enumeration @ ''::'' @ mv_name v @ '', '' @ dquote @ mv_value v @
              dquote @ ''},'' @ nl)
          (me_values enumeration)))
       else []) enums)"

definition Meta_writeType :: "MetaType \<Rightarrow> string" where
  "Meta_writeType type =
     (if m_name type \<in> typeExceptions then []
      else TypeImpl (m_documentation type) (m_name type) (m_value type))"

subsection \<open>Properties\<close>

text \<open>
  \<^verbatim>\<open>fetchType\<close>: an alternative of kind \<^verbatim>\<open>Reference\<close> stands for the first root type of
  that name, when there is one.
\<close>

definition fetchType :: "MetaType list \<Rightarrow> MetaType \<Rightarrow> MetaType" where
  "fetchType rootTypes type =
     (if m_kind type \<noteq> Kind_Reference then type
      else (case find (\<lambda>v. m_value type = m_name v) rootTypes of
              None \<Rightarrow> type
            | Some t \<Rightarrow> t))"

text \<open>
  The tuple that the comparator of the sort builds,
  \<^verbatim>\<open>std::make_tuple(!type->is_deprecated(), type->since)\<close>; \<^verbatim>\<open>operator<\<close> on the tuples is the
  lexicographic order of the pairs, with \<open>False < True\<close>.
\<close>

definition sortKey :: "MetaType list \<Rightarrow> MetaType \<Rightarrow> bool \<times> string" where
  "sortKey rootTypes type =
     (let t = fetchType rootTypes type in (\<not> m_is_deprecated t, m_since t))"


text \<open>
  \<^verbatim>\<open>std::ranges::sort\<close> puts the elements in ascending order of the comparator and leaves
  the order of equivalent elements open.  The sort is the parameter \<open>srt\<close> of the writer;
  \<open>std_sort srt\<close> says that it does what the library promises.  \<^const>\<open>sort_key\<close> is one such
  sort.
\<close>

definition std_sort :: "((MetaType \<Rightarrow> bool \<times> string) \<Rightarrow> MetaType list \<Rightarrow> MetaType list) \<Rightarrow> bool" where
  "std_sort srt = (\<forall>key xs. mset (srt key xs) = mset xs \<and> sorted (map key (srt key xs)))"

definition variantOf :: "MetaType list \<Rightarrow> string" where
  "variantOf items = ''std::variant<'' @ join '', '' (map m_value items) @ ''>''"

text \<open>
  \<^verbatim>\<open>MetaSpecWriter::writeProperty\<close> returns the text and changes the property: the result is
  the text and the property afterwards.  \<open>rootTypes\<close> is \<^verbatim>\<open>m_rootTypes\<close>.
\<close>

fun Meta_writeProperty ::
  "((MetaType \<Rightarrow> bool \<times> string) \<Rightarrow> MetaType list \<Rightarrow> MetaType list) \<Rightarrow> MetaType list
     \<Rightarrow> MetaType \<Rightarrow> string \<Rightarrow> string \<times> MetaType" where
  "Meta_writeProperty srt rootTypes
       (MetaType name0 documentation kind val items deps deprecated since isInterface extends)
       interface =
     (let isOptional = (CHR ''?'' \<in> set name0);
          isConstString = (kind = Kind_StringLiteral);
          isPtr = (val = interface);
          items1 = (if kind = Kind_Or then srt (sortKey rootTypes) items else items);
          value1 = (if kind = Kind_Or then variantOf items1 else val);
          written = (if isConstString \<and> items \<noteq> []
                     then map (\<lambda>item. Meta_writeProperty srt rootTypes item interface) items
                     else []);
          documentation1 = documentation @ concat (map fst written);
          items2 = (if isConstString \<and> items \<noteq> [] then map snd written else items1);
          property1 = MetaType name0 documentation1 kind value1 items2 deps deprecated since
                        isInterface extends
      in if isPtr then
           (documentation1 @ ''std::unique_ptr<'' @ value1 @ ''> '' @
              removeChar (CHR ''?'') name0 @ '';'' @ nl, property1)
         else if isOptional then
           (documentation1 @ ''std::optional<'' @ value1 @ ''> '' @
              removeChar (CHR ''?'') name0 @ '';'' @ nl, property1)
         else if isConstString then
           (documentation1 @ ''static inline const std::string '' @ name0 @ '' = '' @ dquote @
              value1 @ dquote @ '';'' @ nl, property1)
         else (documentation1 @ value1 @ '' '' @ name0 @ '';'' @ nl, property1))"

subsection \<open>Interfaces\<close>

fun Meta_writeChildInterface ::
  "((MetaType \<Rightarrow> bool \<times> string) \<Rightarrow> MetaType list \<Rightarrow> MetaType list) \<Rightarrow> MetaType list
     \<Rightarrow> MetaType \<Rightarrow> string list \<Rightarrow> string" where
  "Meta_writeChildInterface srt rootTypes
       (MetaType name0 documentation kind val items deps deprecated since isInterface extends)
       parent =
     (let name = removeChar (CHR ''?'') name0 in
      ChildInterfaceImpl name
        (concat (map (\<lambda>item.
           if m_is_interface item
           then Meta_writeChildInterface srt rootTypes item (parent @ [name])
           else fst (Meta_writeProperty srt rootTypes item name)) items)))"

definition Meta_writeMainInterface ::
  "((MetaType \<Rightarrow> bool \<times> string) \<Rightarrow> MetaType list \<Rightarrow> MetaType list) \<Rightarrow> MetaType list
     \<Rightarrow> MetaType \<Rightarrow> string" where
  "Meta_writeMainInterface srt rootTypes interface =
     (let appended = concat (map (\<lambda>extend. m_value extend @ '', public '') (m_extends interface));
          extends = (if m_extends interface \<noteq> []
                     then '' : public '' @ take (length appended - 9) appended
                     else appended)
      in MainInterfaceImpl (m_documentation interface) (m_name interface) extends
           (concat (map (\<lambda>item.
              if m_is_interface item
              then Meta_writeChildInterface srt rootTypes item [m_name interface]
              else fst (Meta_writeProperty srt rootTypes item (m_name interface)))
            (m_items interface))))"

subsection \<open>The emission loop\<close>

fun Meta_prune :: "string list \<Rightarrow> MetaType \<Rightarrow> MetaType" where
  "Meta_prune names
       (MetaType name0 documentation kind val items deps deprecated since isInterface extends) =
     MetaType name0 documentation kind val items (removeAllNames names deps) deprecated since
       isInterface extends"

text \<open>
  The \<^verbatim>\<open>for\<close> loop of \<^verbatim>\<open>MetaSpecWriter::writeTypesAndInterfaces\<close> over the one list
  \<^verbatim>\<open>m_rootTypes\<close>.  The state is the text so far, the part of the list before \<^verbatim>\<open>startType\<close>
  (the entities written so far, in the order of writing) and the part from \<^verbatim>\<open>startType\<close>
  on.  While a wave is written \<^verbatim>\<open>m_rootTypes\<close> is the first part, then the wave, then the
  rest.  A run that never reaches the end of the list is \<open>None\<close>.
\<close>

partial_function (option) Meta_writeLoop ::
  "((MetaType \<Rightarrow> bool \<times> string) \<Rightarrow> MetaType list \<Rightarrow> MetaType list)
     \<Rightarrow> string \<Rightarrow> MetaType list \<Rightarrow> MetaType list \<Rightarrow> (string \<times> MetaType list) option" where
  "Meta_writeLoop srt result written remaining =
     (if remaining = [] then Some (result, written)
      else
        let (ready, rest) = stable_partition (\<lambda>type. m_dependencies type = []) remaining;
            rootTypes = written @ ready @ rest;
            existingNames = map m_name ready
        in Meta_writeLoop srt
             (result @ concat (map (\<lambda>type.
                if m_is_interface type then Meta_writeMainInterface srt rootTypes type
                else Meta_writeType type) ready))
             (written @ ready)
             (map (Meta_prune existingNames) rest))"

declare Meta_writeLoop.simps [code]

text \<open>
  The comparator of the sort of \<^verbatim>\<open>m_rootTypes\<close>, \<^verbatim>\<open>!lhs->dependencies.contains(rhs->name)\<close>.
  It holds of every entity and itself unless the entity names itself in its dependency
  list, and both ways between two entities that do not depend on each other, so it is not
  a strict weak ordering and the behaviour of the sort is undefined on such a list.
\<close>

definition Meta_sortByDependencies :: "MetaType \<Rightarrow> MetaType \<Rightarrow> bool" where
  "Meta_sortByDependencies lhs rhs = (m_name rhs \<notin> set (m_dependencies lhs))"

text \<open>
  \<^verbatim>\<open>MetaSpecWriter::writeTypesAndInterfaces\<close>: \<^verbatim>\<open>m_rootTypes\<close> is the type aliases, then the
  interfaces, sorted with \<^verbatim>\<open>std::ranges::sort\<close> and the comparator; the loop runs on what the
  sort leaves.  When the sort does not return, the writer does not return.
\<close>

definition Meta_writeTypesAndInterfaces ::
  "((MetaType \<Rightarrow> bool \<times> string) \<Rightarrow> MetaType list \<Rightarrow> MetaType list)
     \<Rightarrow> ((MetaType \<Rightarrow> MetaType \<Rightarrow> bool) \<Rightarrow> MetaType list \<Rightarrow> MetaType list option)
     \<Rightarrow> MetaData \<Rightarrow> (string \<times> MetaType list) option" where
  "Meta_writeTypesAndInterfaces srt presort d =
     (case presort Meta_sortByDependencies (md_types d @ md_interfaces d) of
        None \<Rightarrow> None
      | Some rootTypes \<Rightarrow> Meta_writeLoop srt [] [] rootTypes)"

text \<open>The text that the loop writes for one entity of \<^verbatim>\<open>m_rootTypes\<close>.\<close>

definition Meta_writeRoot ::
  "((MetaType \<Rightarrow> bool \<times> string) \<Rightarrow> MetaType list \<Rightarrow> MetaType list) \<Rightarrow> MetaType list
     \<Rightarrow> MetaType \<Rightarrow> string" where
  "Meta_writeRoot srt rootTypes type =
     (if m_is_interface type then Meta_writeMainInterface srt rootTypes type
      else Meta_writeType type)"

subsection \<open>JSON bindings\<close>

definition Meta_ownProperties :: "MetaType \<Rightarrow> string list" where
  "Meta_ownProperties interface =
     map (\<lambda>prop. removeChar (CHR ''?'') (m_name prop))
       (filter (\<lambda>prop. \<not> m_is_interface prop) (m_items interface))"

fun Meta_interfaceProperties ::
  "nat \<Rightarrow> MetaType \<Rightarrow> MetaType list \<Rightarrow> string list option" where
  "Meta_interfaceProperties 0 interface interfaces = None"
| "Meta_interfaceProperties (Suc depth) interface interfaces =
     fold (\<lambda>extend acc.
            case acc of None \<Rightarrow> None
            | Some properties \<Rightarrow>
                (case find (\<lambda>i. m_name i = m_value extend) interfaces of
                   None \<Rightarrow> Some properties
                 | Some it \<Rightarrow>
                     (case Meta_interfaceProperties depth it interfaces of
                        None \<Rightarrow> None
                      | Some ps \<Rightarrow> Some (properties @ ps))))
       (m_extends interface) (Some (Meta_ownProperties interface))"

fun Meta_writeJsonInterface ::
  "nat \<Rightarrow> MetaType list \<Rightarrow> MetaType \<Rightarrow> string list \<Rightarrow> string option" where
  "Meta_writeJsonInterface depth interfaces
       (MetaType name0 documentation kind val items deps deprecated since isInterface extends)
       parent0 =
     (let name = removeChar (CHR ''?'') name0;
          parent = parent0 @ [name] in
      if name \<in> jsonExceptions then Some (nl @ ''JSONIFY_FWD('' @ join ''::'' parent @ '')'' @ nl)
      else
        case Meta_interfaceProperties depth
               (MetaType name0 documentation kind val items deps deprecated since isInterface
                  extends) interfaces of
          None \<Rightarrow> None
        | Some props \<Rightarrow>
            (case those (map (\<lambda>child.
                     if m_is_interface child
                     then Meta_writeJsonInterface depth interfaces child parent
                     else Some []) items) of
               None \<Rightarrow> None
             | Some cs \<Rightarrow>
                 Some ((if length parent = 1 then nl else []) @ concat cs @
                   (if props = [] then ''JSONIFY_EMPTY('' @ join ''::'' parent @ '')'' @ nl
                    else ''JSONIFY('' @ join ''::'' parent @ '', '' @ join '', '' props @ '')'' @ nl))))"

subsection \<open>Normalisation\<close>

definition Meta_cleanValue :: "EnumerationType \<Rightarrow> MetaValue \<Rightarrow> MetaValue option" where
  "Meta_cleanValue type v =
     (case upperFirst (mv_name v) of
        None \<Rightarrow> None
      | Some name \<Rightarrow>
          if type \<noteq> Enum_String
          then (case upperFirst (mv_value v) of
                  None \<Rightarrow> None
                | Some val \<Rightarrow> Some (v\<lparr>mv_name := name, mv_value := val\<rparr>))
          else Some (v\<lparr>mv_name := name\<rparr>))"

definition Meta_cleanEnumeration :: "MetaEnumeration \<Rightarrow> MetaEnumeration option" where
  "Meta_cleanEnumeration e =
     (case those (map (Meta_cleanValue (me_type e)) (me_values e)) of
        None \<Rightarrow> None
      | Some vs \<Rightarrow> Some (e\<lparr>me_name := renameEnum (me_name e), me_values := vs\<rparr>))"

definition Meta_cleanCode :: "MetaData \<Rightarrow> MetaData option" where
  "Meta_cleanCode d =
     (case those (map Meta_cleanEnumeration (removeDuplicates me_name [] (md_enumerations d))) of
        None \<Rightarrow> None
      | Some enums \<Rightarrow>
          (let ifaces = filter (\<lambda>i. m_name i \<notin> removeStructNames) (md_interfaces d);
               types1 = filter (\<lambda>t. m_name t \<notin> removeTypeNames) (md_types d);
               enumNames = map me_name enums;
               existingTypeNames = enumNames @ map m_name ifaces;
               types2 = filter (\<lambda>t. m_name t \<notin> set existingTypeNames) types1
           in Some (d\<lparr>md_enumerations := enums,
                      md_types := map (Meta_prune enumNames) types2,
                      md_interfaces := map (Meta_prune enumNames) ifaces\<rparr>)))"

subsection \<open>Writing the files\<close>

definition paramValue :: "MetaType option \<Rightarrow> string" where
  "paramValue p = (case p of None \<Rightarrow> ''std::nullptr_t'' | Some t \<Rightarrow> m_value t)"

definition Meta_notificationsText :: "MetaNotification list \<Rightarrow> string option" where
  "Meta_notificationsText ns =
     fold (\<lambda>notification acc.
            case acc of None \<Rightarrow> None
            | Some text \<Rightarrow>
                (case methodToName (mn_name notification) of
                   None \<Rightarrow> None
                 | Some name \<Rightarrow>
                     Some (text @ NotificationImpl name (mn_name notification)
                                    (paramValue (mn_params notification)))))
       ns (Some [])"

definition Meta_saveNotifications ::
  "string \<Rightarrow> Env \<Rightarrow> MetaData \<Rightarrow> (string \<times> string) list option" where
  "Meta_saveNotifications LSP_SOURCE_PATH env d =
     (let file = LSP_SOURCE_PATH @ ''/notifications.h'' in
      if \<not> canOpen env file then Some []
      else (case Meta_notificationsText (md_notifications d) of
              None \<Rightarrow> None
            | Some text \<Rightarrow> Some [(file, kept env file (NotificationHeader text))]))"

definition Meta_requestsText :: "MetaRequest list \<Rightarrow> string option" where
  "Meta_requestsText rs =
     fold (\<lambda>request acc.
            case acc of None \<Rightarrow> None
            | Some text \<Rightarrow>
                (case methodToName (mr_name request) of
                   None \<Rightarrow> None
                 | Some name \<Rightarrow>
                     Some (text @ RequestImpl name (mr_name request)
                                    (paramValue (mr_params request))
                                    (paramValue (mr_result request)) (mr_error request))))
       rs (Some [])"

definition Meta_saveRequests ::
  "string \<Rightarrow> Env \<Rightarrow> MetaData \<Rightarrow> (string \<times> string) list option" where
  "Meta_saveRequests LSP_SOURCE_PATH env d =
     (let file = LSP_SOURCE_PATH @ ''/requests.h'' in
      if \<not> canOpen env file then Some []
      else (case Meta_requestsText (md_requests d) of
              None \<Rightarrow> None
            | Some text \<Rightarrow> Some [(file, kept env file (RequestHeader text))]))"

definition CodeHeader :: "string \<Rightarrow> string" where
  "CodeHeader text =
     ''// File generated by spec2cpp tool'' @ nl @
     ''// DO NOT MAKE ANY CHANGES HERE'' @ nl @ nl @
     ''#pragma once'' @ nl @ nl @
     ''#include <nlohmann/json.hpp>'' @ nl @ nl @
     ''#include <memory>'' @ nl @
     ''#include <optional>'' @ nl @
     ''#include <string>'' @ nl @
     ''#include <tuple>'' @ nl @
     ''#include <unordered_map>'' @ nl @
     ''#include <variant>'' @ nl @ nl @
     ''namespace Lsp {'' @ nl @ text @ nl @ ''}'' @ nl"

definition CodeJsonHeader :: "string \<Rightarrow> string" where
  "CodeJsonHeader text =
     ''// File generated by spec2cpp tool'' @ nl @
     ''// DO NOT MAKE ANY CHANGES HERE'' @ nl @ nl @
     ''#pragma once'' @ nl @ nl @
     ''#include '' @ dquote @ ''json.h'' @ dquote @ nl @
     ''#include '' @ dquote @ ''types.h'' @ dquote @ nl @ nl @
     ''namespace Lsp {'' @ nl @ text @ nl @ ''}'' @ nl"

definition Meta_jsonText :: "nat \<Rightarrow> MetaData \<Rightarrow> string option" where
  "Meta_jsonText depth d =
     fold (\<lambda>interface acc.
            case acc of None \<Rightarrow> None
            | Some text \<Rightarrow>
                (case Meta_writeJsonInterface depth (md_interfaces d) interface [] of
                   None \<Rightarrow> None
                 | Some t \<Rightarrow> Some (text @ t)))
       (md_interfaces d) (Some (Meta_writeJsonEnums (md_enumerations d)))"

text \<open>
  \<^verbatim>\<open>MetaSpecWriter::saveCode\<close>.  The bindings read the names, the \<^verbatim>\<open>is_interface()\<close> flags
  and the \<^verbatim>\<open>extends\<close> entries only, none of which the pass over the types changes, so they
  are computed from the data as \<^verbatim>\<open>cleanCode\<close> leaves it.
\<close>

definition Meta_saveCode ::
  "string \<Rightarrow> Env \<Rightarrow> ((MetaType \<Rightarrow> bool \<times> string) \<Rightarrow> MetaType list \<Rightarrow> MetaType list)
     \<Rightarrow> ((MetaType \<Rightarrow> MetaType \<Rightarrow> bool) \<Rightarrow> MetaType list \<Rightarrow> MetaType list option)
     \<Rightarrow> nat \<Rightarrow> MetaData \<Rightarrow> (string \<times> string) list option" where
  "Meta_saveCode LSP_SOURCE_PATH env srt presort depth d0 =
     (case Meta_cleanCode d0 of
        None \<Rightarrow> None
      | Some d \<Rightarrow>
          (let typesFile = LSP_SOURCE_PATH @ ''/types.h'';
               jsonFile = LSP_SOURCE_PATH @ ''/types_json.h'' in
           if \<not> canOpen env typesFile then Some []
           else
             (case Meta_writeTypesAndInterfaces srt presort d of
                None \<Rightarrow> None
              | Some (text, written) \<Rightarrow>
                  (let files = [(typesFile, kept env typesFile
                                   (CodeHeader (Meta_writeEnums (md_enumerations d) @ text)))] in
                   if \<not> canOpen env jsonFile then Some files
                   else (case Meta_jsonText depth d of
                           None \<Rightarrow> None
                         | Some json \<Rightarrow>
                             Some (files @ [(jsonFile, kept env jsonFile (CodeJsonHeader json))]))))))"

section \<open>The dependency graph and the resolver of the specification\<close>








section \<open>The flattened property list of the specification\<close>

text \<open>
  The flattened list as the specification describes it, for each writer: the own property
  names of the interface (\<^const>\<open>ownProperties\<close>, \<^const>\<open>Meta_ownProperties\<close>), followed, for
  every entry of \<^verbatim>\<open>extends\<close> in order, by the flattened list of the first top-level interface
  of that name; an entry that names no top-level interface adds nothing.
\<close>

inductive flattened :: "DataInterface list \<Rightarrow> DataInterface \<Rightarrow> string list \<Rightarrow> bool"
  for interfaces :: "DataInterface list" where
  "list_all2 (\<lambda>extend ps.
       (find (\<lambda>i. i_name i = extend) interfaces = None \<and> ps = [])
       \<or> (\<exists>base. find (\<lambda>i. i_name i = extend) interfaces = Some base
             \<and> flattened interfaces base ps))
     (i_extends interface) pss
   \<Longrightarrow> flattened interfaces interface (ownProperties interface @ concat pss)"

inductive Meta_flattened :: "MetaType list \<Rightarrow> MetaType \<Rightarrow> string list \<Rightarrow> bool"
  for interfaces :: "MetaType list" where
  "list_all2 (\<lambda>extend ps.
       (find (\<lambda>i. m_name i = m_value extend) interfaces = None \<and> ps = [])
       \<or> (\<exists>base. find (\<lambda>i. m_name i = m_value extend) interfaces = Some base
             \<and> Meta_flattened interfaces base ps))
     (m_extends interface) pss
   \<Longrightarrow> Meta_flattened interfaces interface (Meta_ownProperties interface @ concat pss)"

text \<open>One step of the loop over \<^verbatim>\<open>extends\<close> in \<^verbatim>\<open>interfaceProperties\<close>, for the proofs.\<close>

definition appendBase ::
  "('e \<Rightarrow> 'b option) \<Rightarrow> ('b \<Rightarrow> string list option) \<Rightarrow> 'e \<Rightarrow> string list option
     \<Rightarrow> string list option" where
  "appendBase lookup rec ext acc =
     (case acc of None \<Rightarrow> None
      | Some properties \<Rightarrow>
          (case lookup ext of
             None \<Rightarrow> Some properties
           | Some it \<Rightarrow> (case rec it of None \<Rightarrow> None | Some ps \<Rightarrow> Some (properties @ ps))))"

section \<open>Examples\<close>

text \<open>
  The union of the specification's example: the alternatives \<open>A\<close> (deprecated, since 3.0),
  \<open>B\<close> (since 3.15) and \<open>C\<close> (since 3.0), in this order.
\<close>

definition unionExample :: MetaType where
  "unionExample =
     MetaType ''contents'' [] Kind_Or ''std::variant<A, B, C>''
       [MetaType [] [] Kind_Other ''A'' [] [] True ''3.0'' False [],
        MetaType [] [] Kind_Other ''B'' [] [] False ''3.15'' False [],
        MetaType [] [] Kind_Other ''C'' [] [] False ''3.0'' False []]
       [] False [] False []"

text \<open>A file system on which no file can be opened.\<close>

definition deafEnv :: Env where
  "deafEnv = \<lparr>canOpen = (\<lambda>path. False), kept = (\<lambda>path text. text)\<rparr>"

text \<open>
  Three sorts for the examples.  \<open>keepOrder\<close> returns and leaves the list as it is.
  \<open>insertionSort\<close> returns and has put every element, from the first to the last, before
  the first element of the part sorted so far that the comparator puts it before.
  \<open>checkedSort\<close> does not return when the comparator holds of an element and itself, where
  the behaviour of \<^verbatim>\<open>std::ranges::sort\<close> is undefined, and is the insertion sort otherwise.
\<close>

definition keepOrder :: "('a \<Rightarrow> 'a \<Rightarrow> bool) \<Rightarrow> 'a list \<Rightarrow> 'a list option" where
  "keepOrder cmp xs = Some xs"








definition interfaceI :: MetaType where
  "interfaceI = MetaType ''I'' [] Kind_Other [] [] [] False [] True []"

definition cycleA :: DataInterface where
  "cycleA = DataInterface ''A'' [] [] [] [] [''B'']"

definition cycleB :: DataInterface where
  "cycleB = DataInterface ''B'' [] [] [] [] [''A'']"

definition danglingT :: MetaType where
  "danglingT = MetaType ''T'' [] Kind_Other ''Missing'' [] [''Missing''] False [] False []"

definition uriType :: DataType where
  "uriType = \<lparr>t_name = ''Uri'', t_comment = [], t_dataType = ''std::string'', t_dependencies = []\<rparr>"


definition docsType :: DataType where
  "docsType = \<lparr>t_name = ''Docs'', t_comment = [], t_dataType = ''std::vector<Doc>'',
     t_dependencies = [''Doc'']\<rparr>"








text \<open>
  A union property \<open>next\<close> of an interface \<open>Node\<close> whose type text is the name of the
  interface, with the alternatives \<open>Node\<close> and \<open>int\<close>.
\<close>

definition selfUnion :: MetaType where
  "selfUnion =
     MetaType ''next'' [] Kind_Or ''Node''
       [MetaType [] [] Kind_Reference ''Node'' [] [] False [] False [],
        MetaType [] [] Kind_Other ''int'' [] [] False [] False []]
       [] False [] False []"

text \<open>
  The interfaces of the specification's flattening example, for both writers, and an
  interface with a read-only property.
\<close>

definition parentInterface :: DataInterface where
  "parentInterface = DataInterface ''Parent'' [] []
     [\<lparr>p_name = ''p1'', p_dataType = ''int'', p_comment = []\<rparr>,
      \<lparr>p_name = ''p2?'', p_dataType = ''int'', p_comment = []\<rparr>] [] []"

definition childInterface :: DataInterface where
  "childInterface = DataInterface ''Child'' [] [''Parent'']
     [\<lparr>p_name = ''p3'', p_dataType = ''int'', p_comment = []\<rparr>] [] []"

definition metaParent :: MetaType where
  "metaParent = MetaType ''Parent'' [] Kind_Other []
     [MetaType ''p1'' [] Kind_Other ''int'' [] [] False [] False [],
      MetaType ''Nested'' [] Kind_Other [] [] [] False [] True [],
      MetaType ''p2?'' [] Kind_Other ''int'' [] [] False [] False []] [] False [] True []"

definition metaChild :: MetaType where
  "metaChild = MetaType ''Child'' [] Kind_Other []
     [MetaType ''p3'' [] Kind_Other ''int'' [] [] False [] False []] [] False [] True
     [MetaType [] [] Kind_Reference ''Parent'' [] [] False [] False []]"

definition readonlyInterface :: DataInterface where
  "readonlyInterface = DataInterface ''Doc'' [] []
     [\<lparr>p_name = ''readonly version?'', p_dataType = ''int'', p_comment = []\<rparr>] [] []"

text \<open>
  A model with the enumerations \<open>InitializeError\<close> and \<open>InitializeErrorCodes\<close>, and a model
  on which every step of the normalisation has something to do.
\<close>

definition clashData :: Data where
  "clashData = \<lparr>d_notifications = [], d_requests = [],
     d_enumerations =
       [\<lparr>e_name = ''InitializeError'', e_comment = [], e_isString = False,
          e_values = [\<lparr>v_name = ''unknownProtocolVersion'', v_value = ''1'', v_comment = []\<rparr>]\<rparr>,
        \<lparr>e_name = ''InitializeErrorCodes'', e_comment = [], e_isString = False, e_values = []\<rparr>],
     d_types = [], d_interfaces = []\<rparr>"

definition normalData :: Data where
  "normalData = \<lparr>d_notifications = [], d_requests = [],
     d_enumerations =
       [\<lparr>e_name = ''InitializeError'', e_comment = [], e_isString = False,
          e_values = [\<lparr>v_name = ''unknownProtocolVersion'', v_value = ''1'', v_comment = []\<rparr>]\<rparr>,
        \<lparr>e_name = ''MarkupKind'', e_comment = [], e_isString = True,
          e_values = [\<lparr>v_name = ''plainText'', v_value = [squote] @ ''plaintext'' @ [squote],
                       v_comment = []\<rparr>]\<rparr>,
        \<lparr>e_name = ''MarkupKind'', e_comment = [], e_isString = True, e_values = []\<rparr>],
     d_types =
       [\<lparr>t_name = ''LSPAny'', t_comment = [], t_dataType = ''int'', t_dependencies = []\<rparr>,
        \<lparr>t_name = ''MarkupKind'', t_comment = [], t_dataType = ''int'', t_dependencies = []\<rparr>,
        \<lparr>t_name = ''Kinds'', t_comment = [], t_dataType = ''std::vector<MarkupKind>'',
          t_dependencies = [''MarkupKind'']\<rparr>],
     d_interfaces =
       [DataInterface ''Message'' [] [] [] [] [],
        DataInterface ''Hover'' [] [] [] [] [''MarkupKind'', ''Kinds'']]\<rparr>"

section \<open>Properties of the writers\<close>

subsection \<open>Helper facts\<close>

lemma jsonExceptions_no_mark: "n \<in> jsonExceptions \<Longrightarrow> removeChar (CHR ''?'') n = n"
  by (auto simp: jsonExceptions_def removeChar_def)

subsection \<open>Type aliases that are never written\<close>

text \<open>
  Claim C10.  A type alias named \<open>integer\<close>, \<open>uinteger\<close> or \<open>decimal\<close> is rendered as the empty
  string by both writers, so it adds nothing to the declarations; every other alias is
  rendered as the using-declaration of its value.  None of the three names is in the list
  of type names that the normalisation removes.
\<close>

theorem writeType_exceptions:
  "(t_name t \<in> {''integer'', ''uinteger'', ''decimal''} \<longrightarrow> writeType t = [])
   \<and> (t_name t \<notin> {''integer'', ''uinteger'', ''decimal''} \<longrightarrow>
        writeType t = nl @ t_comment t @ ''using '' @ t_name t @ '' = '' @ t_dataType t @ '';'' @ nl)
   \<and> (m_name m \<in> {''integer'', ''uinteger'', ''decimal''} \<longrightarrow> Meta_writeType m = [])
   \<and> (m_name m \<notin> {''integer'', ''uinteger'', ''decimal''} \<longrightarrow>
        Meta_writeType m =
          nl @ m_documentation m @ ''using '' @ m_name m @ '' = '' @ m_value m @ '';'' @ nl)
   \<and> {''integer'', ''uinteger'', ''decimal''} \<inter> removeTypeNames = {}"
  by (simp add: writeType_def Meta_writeType_def typeExceptions_def TypeImpl_def
      removeTypeNames_def)

theorem writeType_exceptions_witness:
  "writeType \<lparr>t_name = ''uinteger'', t_comment = ''// c'', t_dataType = ''unsigned int'',
      t_dependencies = []\<rparr> = []
   \<and> writeType \<lparr>t_name = ''DocumentUri'', t_comment = [], t_dataType = ''std::string'',
      t_dependencies = []\<rparr> = nl @ ''using DocumentUri = std::string;'' @ nl
   \<and> Meta_writeType (MetaType ''decimal'' [] Kind_Other ''double'' [] [] False [] False []) = []
   \<and> Meta_writeType (MetaType ''URI'' [] Kind_Other ''std::string'' [] [] False [] False [])
       = nl @ ''using URI = std::string;'' @ nl"
  using writeType_exceptions
    [of "\<lparr>t_name = ''uinteger'', t_comment = ''// c'', t_dataType = ''unsigned int'',
      t_dependencies = []\<rparr>" "MetaType ''decimal'' [] Kind_Other ''double'' [] [] False [] False []"]
    writeType_exceptions
    [of "\<lparr>t_name = ''DocumentUri'', t_comment = [], t_dataType = ''std::string'',
      t_dependencies = []\<rparr>" "MetaType ''URI'' [] Kind_Other ''std::string'' [] [] False [] False []"]
  by simp

subsection \<open>Bindings that are written by hand\<close>

text \<open>
  Claim C9.  For an interface whose name is \<open>SelectionRange\<close>, \<open>FormattingOptions\<close> or
  \<open>ChangeAnnotationsType\<close> the JSON binding is the forward declaration alone, whatever the
  properties, the nested interfaces and the bases of the interface are (and before any of
  them is looked at: the result does not depend on the depth bound).
\<close>

theorem writeJsonInterface_exception:
  "jsonExceptions = {''SelectionRange'', ''FormattingOptions'', ''ChangeAnnotationsType''}
   \<and> (i_name i \<in> jsonExceptions \<longrightarrow>
        writeJsonInterface depth interfaces i parent =
          Some (nl @ ''JSONIFY_FWD('' @ join ''::'' (parent @ [i_name i]) @ '')'' @ nl))
   \<and> (m_name m \<in> jsonExceptions \<longrightarrow>
        Meta_writeJsonInterface depth minterfaces m parent =
          Some (nl @ ''JSONIFY_FWD('' @ join ''::'' (parent @ [m_name m]) @ '')'' @ nl))"
proof (intro conjI impI)
  show "jsonExceptions = {''SelectionRange'', ''FormattingOptions'', ''ChangeAnnotationsType''}"
    by (simp add: jsonExceptions_def)
next
  assume "i_name i \<in> jsonExceptions"
  then show "writeJsonInterface depth interfaces i parent =
          Some (nl @ ''JSONIFY_FWD('' @ join ''::'' (parent @ [i_name i]) @ '')'' @ nl)"
    by (cases i) simp
next
  assume "m_name m \<in> jsonExceptions"
  then show "Meta_writeJsonInterface depth minterfaces m parent =
          Some (nl @ ''JSONIFY_FWD('' @ join ''::'' (parent @ [m_name m]) @ '')'' @ nl)"
    by (cases m) (simp add: jsonExceptions_no_mark)
qed

theorem writeJsonInterface_exception_witness:
  "writeJsonInterface 0 []
     (DataInterface ''SelectionRange'' ''/* doc */'' [''Base'']
        [\<lparr>p_name = ''range'', p_dataType = ''Range'', p_comment = []\<rparr>,
         \<lparr>p_name = ''parent?'', p_dataType = ''SelectionRange'', p_comment = []\<rparr>]
        [DataInterface ''Inner'' [] [] [] [] []] []) []
     = Some (nl @ ''JSONIFY_FWD(SelectionRange)'' @ nl)
   \<and> Meta_writeJsonInterface 0 []
     (MetaType ''FormattingOptions'' [] Kind_Other []
        [MetaType ''tabSize'' [] Kind_Other ''unsigned int'' [] [] False [] False []]
        [] False [] True [])
     [''Outer'']
     = Some (nl @ ''JSONIFY_FWD(Outer::FormattingOptions)'' @ nl)"
proof -
  have a: "''SelectionRange'' \<in> jsonExceptions" and b: "''FormattingOptions'' \<in> jsonExceptions"
    by (simp_all add: jsonExceptions_def)
  from a b show ?thesis
    using writeJsonInterface_exception
      [where i = "DataInterface ''SelectionRange'' ''/* doc */'' [''Base'']
          [\<lparr>p_name = ''range'', p_dataType = ''Range'', p_comment = []\<rparr>,
           \<lparr>p_name = ''parent?'', p_dataType = ''SelectionRange'', p_comment = []\<rparr>]
          [DataInterface ''Inner'' [] [] [] [] []] []" and depth = 0 and interfaces = "[]"
          and parent = "[]"]
      writeJsonInterface_exception
      [where m = "MetaType ''FormattingOptions'' [] Kind_Other []
          [MetaType ''tabSize'' [] Kind_Other ''unsigned int'' [] [] False [] False []]
          [] False [] True []"
          and depth = 0 and minterfaces = "[]" and parent = "[''Outer'']"]
    by simp
qed

subsection \<open>A property of the type of its own interface\<close>

lemma Meta_writeProperty_text:
  "fst (Meta_writeProperty srt rootTypes m interface) =
     (let documentation = m_documentation m @
            (if m_kind m = Kind_StringLiteral
             then concat (map (\<lambda>item. fst (Meta_writeProperty srt rootTypes item interface))
                            (m_items m))
             else []);
          val = (if m_kind m = Kind_Or then variantOf (srt (sortKey rootTypes) (m_items m))
                 else m_value m)
      in if m_value m = interface then
           documentation @ ''std::unique_ptr<'' @ val @ ''> '' @
             removeChar (CHR ''?'') (m_name m) @ '';'' @ nl
         else if CHR ''?'' \<in> set (m_name m) then
           documentation @ ''std::optional<'' @ val @ ''> '' @
             removeChar (CHR ''?'') (m_name m) @ '';'' @ nl
         else if m_kind m = Kind_StringLiteral then
           documentation @ ''static inline const std::string '' @ m_name m @ '' = '' @ dquote @
             val @ dquote @ '';'' @ nl
         else documentation @ val @ '' '' @ m_name m @ '';'' @ nl)"
  by (cases m) (simp add: Let_def comp_def)

text \<open>
  Claim C4, as it is stated, fails in the meta-model writer for a union: the test for the
  self-reference is made on the type text that the property comes with, and the text that
  is written is the variant that has replaced it.  The property \<open>next\<close> of the interface
  \<open>Node\<close>, a union of \<open>Node\<close> and \<open>int\<close> whose type text is \<open>Node\<close>, is written as a
  \<^verbatim>\<open>std::unique_ptr\<close> to the variant, not to \<open>Node\<close>.
\<close>

theorem self_reference_union_counterexample:
  "m_value selfUnion = ''Node''
   \<and> fst (Meta_writeProperty sort_key [] selfUnion ''Node'')
       = ''std::unique_ptr<std::variant<Node, int>> next;'' @ nl
   \<and> fst (Meta_writeProperty sort_key [] selfUnion ''Node'')
       \<noteq> ''std::unique_ptr<Node> next;'' @ nl"
  by (simp add: selfUnion_def Let_def sortKey_def fetchType_def variantOf_def removeChar_def)

text \<open>
  Claim C4, amended.  A property whose type is the name of the enclosing interface is
  written as a \<^verbatim>\<open>std::unique_ptr\<close> field, whether or not its name carries the optional mark
  and whatever its kind is; it is never written as an optional, a constant or a plain
  field.  In the table-driven writer the pointee is the interface.  In the meta-model
  writer the pointee is the interface unless the property is a union; for a union it is the
  variant over the reordered alternatives.  The documentation of a string literal is
  followed by the texts of its items.
\<close>

theorem writeProperty_self_reference:
  "(p_dataType p = interface \<longrightarrow>
      writeProperty p interface =
        p_comment p @ ''std::unique_ptr<'' @ interface @ ''> '' @
          removeChar (CHR ''?'') (removeStr ''readonly '' (p_name p)) @ '';'' @ nl)
   \<and> (m_value m = interface \<and> m_kind m \<noteq> Kind_Or \<longrightarrow>
        fst (Meta_writeProperty srt rootTypes m interface) =
          m_documentation m @
          (if m_kind m = Kind_StringLiteral
           then concat (map (\<lambda>item. fst (Meta_writeProperty srt rootTypes item interface))
                          (m_items m))
           else []) @
          ''std::unique_ptr<'' @ interface @ ''> '' @
          removeChar (CHR ''?'') (m_name m) @ '';'' @ nl)
   \<and> (m_value m = interface \<and> m_kind m = Kind_Or \<longrightarrow>
        fst (Meta_writeProperty srt rootTypes m interface) =
          m_documentation m @ ''std::unique_ptr<std::variant<'' @
          join '', '' (map m_value (srt (sortKey rootTypes) (m_items m))) @ ''>> '' @
          removeChar (CHR ''?'') (m_name m) @ '';'' @ nl)"
proof (intro conjI impI)
  assume "p_dataType p = interface"
  then show "writeProperty p interface =
        p_comment p @ ''std::unique_ptr<'' @ interface @ ''> '' @
          removeChar (CHR ''?'') (removeStr ''readonly '' (p_name p)) @ '';'' @ nl"
    by (simp add: writeProperty_def Let_def)
next
  assume "m_value m = interface \<and> m_kind m \<noteq> Kind_Or"
  then show "fst (Meta_writeProperty srt rootTypes m interface) =
          m_documentation m @
          (if m_kind m = Kind_StringLiteral
           then concat (map (\<lambda>item. fst (Meta_writeProperty srt rootTypes item interface))
                          (m_items m))
           else []) @
          ''std::unique_ptr<'' @ interface @ ''> '' @
          removeChar (CHR ''?'') (m_name m) @ '';'' @ nl"
    by (simp add: Meta_writeProperty_text Let_def)
next
  assume "m_value m = interface \<and> m_kind m = Kind_Or"
  then show "fst (Meta_writeProperty srt rootTypes m interface) =
          m_documentation m @ ''std::unique_ptr<std::variant<'' @
          join '', '' (map m_value (srt (sortKey rootTypes) (m_items m))) @ ''>> '' @
          removeChar (CHR ''?'') (m_name m) @ '';'' @ nl"
    by (simp add: Meta_writeProperty_text Let_def variantOf_def)
qed

theorem writeProperty_self_reference_witness:
  "writeProperty \<lparr>p_name = ''parent?'', p_dataType = ''SelectionRange'', p_comment = []\<rparr>
       ''SelectionRange''
     = ''std::unique_ptr<SelectionRange> parent;'' @ nl
   \<and> fst (Meta_writeProperty sort_key []
        (MetaType ''parent?'' [] Kind_Reference ''SelectionRange'' [] [] False [] False [])
        ''SelectionRange'')
     = ''std::unique_ptr<SelectionRange> parent;'' @ nl
   \<and> fst (Meta_writeProperty sort_key [] selfUnion ''Node'')
     = ''std::unique_ptr<std::variant<Node, int>> next;'' @ nl"
proof -
  have "writeProperty \<lparr>p_name = ''parent?'', p_dataType = ''SelectionRange'', p_comment = []\<rparr>
       ''SelectionRange''
     = ''std::unique_ptr<SelectionRange> parent;'' @ nl
   \<and> fst (Meta_writeProperty sort_key []
        (MetaType ''parent?'' [] Kind_Reference ''SelectionRange'' [] [] False [] False [])
        ''SelectionRange'')
     = ''std::unique_ptr<SelectionRange> parent;'' @ nl"
    using writeProperty_self_reference
      [where p = "\<lparr>p_name = ''parent?'', p_dataType = ''SelectionRange'', p_comment = []\<rparr>"
         and interface = "''SelectionRange''"
         and m = "MetaType ''parent?'' [] Kind_Reference ''SelectionRange'' [] [] False [] False []"
         and srt = sort_key and rootTypes = "[]"]
    by (simp add: removeChar_def)
  moreover have "fst (Meta_writeProperty sort_key [] selfUnion ''Node'')
     = ''std::unique_ptr<std::variant<Node, int>> next;'' @ nl"
    using writeProperty_self_reference
      [where p = "\<lparr>p_name = ''next'', p_dataType = ''Node'', p_comment = []\<rparr>"
         and interface = "''Node''" and m = selfUnion and srt = sort_key and rootTypes = "[]",
       THEN conjunct2, THEN conjunct2]
    by (simp add: selfUnion_def removeChar_def sortKey_def fetchType_def)
  ultimately show ?thesis
    by simp
qed

subsection \<open>The order of the alternatives of a union\<close>

lemma std_sort_sort_key: "std_sort sort_key"
  by (simp add: std_sort_def)

lemma std_sort_unique:
  assumes "std_sort srt" and "distinct (map key xs)"
  shows "srt key xs = sort_key key xs"
proof -
  have m: "mset (srt key xs) = mset xs" and s: "sorted (map key (srt key xs))"
    using assms(1) by (simp_all add: std_sort_def)
  have "mset (map key (srt key xs)) = mset (map key xs)"
    using m by simp
  then have d: "distinct (map key (srt key xs))"
    using assms(2) by (metis mset_eq_imp_distinct_iff)
  have e: "set (srt key xs) = set xs"
    using m by (rule mset_eq_setD)
  have i: "inj_on key (set (srt key xs) \<union> set (sort_key key xs))"
    using assms(2) e by (simp add: distinct_map)
  have "mset (map key (sort_key key xs)) = mset (map key xs)"
    by simp
  then have d': "distinct (map key (sort_key key xs))"
    using assms(2) by (metis mset_eq_imp_distinct_iff)
  show ?thesis
    by (rule map_sorted_distinct_set_unique [OF i s d _ d']) (simp_all add: e)
qed

lemma Meta_writeProperty_Or:
  "m_kind p = Kind_Or \<Longrightarrow>
   snd (Meta_writeProperty srt rootTypes p interface) =
     MetaType (m_name p) (m_documentation p) Kind_Or
       (variantOf (srt (sortKey rootTypes) (m_items p)))
       (srt (sortKey rootTypes) (m_items p)) (m_dependencies p) (m_is_deprecated p) (m_since p)
       (m_is_interface p) (m_extends p)"
  by (cases p) (simp add: Let_def)

text \<open>
  Claim C1, as it is stated, fails on the specification's own example: the comparator
  orders the alternatives by the tuple \<open>(\<not> deprecated, since)\<close>, ascending, so the
  deprecated alternative \<open>A\<close> comes first and the result is \<open>[A, C, B]\<close>, not \<open>[C, B, A]\<close>.
  (The three tuples differ, so every sort that does what \<^verbatim>\<open>std::ranges::sort\<close> promises
  gives this order, see \<open>std_sort_unique\<close>; \<^const>\<open>sort_key\<close> is one.)
\<close>

theorem union_order_counterexample:
  "map m_value (m_items (snd (Meta_writeProperty sort_key [] unionExample ''Hover'')))
     = [''A'', ''C'', ''B'']
   \<and> map m_value (m_items (snd (Meta_writeProperty sort_key [] unionExample ''Hover'')))
     \<noteq> [''C'', ''B'', ''A'']
   \<and> fst (Meta_writeProperty sort_key [] unionExample ''Hover'')
     = ''std::variant<A, C, B> contents;'' @ nl"
  by (simp add: unionExample_def Let_def sortKey_def fetchType_def variantOf_def)

text \<open>
  Claim C1, amended.  For a property of kind \<open>Or\<close> the writer reorders the alternatives so
  that deprecated alternatives come before the others and, within one deprecation status,
  the introduction versions ascend (as strings); an alternative of kind \<open>Reference\<close> takes
  both from the root type of its name when there is one.  The type text of the property
  becomes the variant over the reordered list.  When no two alternatives have the same
  tuple the order is the one of an insertion sort by the tuple; the order of alternatives
  with the same tuple is left to \<^verbatim>\<open>std::ranges::sort\<close>, which is not a stable sort.  The
  alternatives \<open>A\<close>, \<open>B\<close>, \<open>C\<close> of the example are reordered to \<open>[A, C, B]\<close>.
\<close>

theorem union_reordered:
  assumes "std_sort srt" and "m_kind p = Kind_Or"
  shows "(let p' = snd (Meta_writeProperty srt rootTypes p interface) in
     mset (m_items p') = mset (m_items p)
     \<and> (\<forall>i j. i < j \<and> j < length (m_items p') \<longrightarrow>
          (let a = fetchType rootTypes (m_items p' ! i);
               b = fetchType rootTypes (m_items p' ! j)
           in (m_is_deprecated b \<longrightarrow> m_is_deprecated a)
              \<and> (m_is_deprecated a = m_is_deprecated b \<longrightarrow> m_since a \<le> m_since b)))
     \<and> (distinct (map (sortKey rootTypes) (m_items p)) \<longrightarrow>
          m_items p' = sort_key (sortKey rootTypes) (m_items p))
     \<and> m_value p' = ''std::variant<'' @ join '', '' (map m_value (m_items p')) @ ''>'')
   \<and> map m_value (m_items (snd (Meta_writeProperty srt rootTypes unionExample interface)))
      = [''A'', ''C'', ''B'']"
proof -
  let ?ys = "srt (sortKey rootTypes) (m_items p)"
  have perm: "mset ?ys = mset (m_items p)" and srtd: "sorted (map (sortKey rootTypes) ?ys)"
    using assms(1) by (simp_all add: std_sort_def)
  have ord: "(m_is_deprecated (fetchType rootTypes (?ys ! j))
        \<longrightarrow> m_is_deprecated (fetchType rootTypes (?ys ! i)))
      \<and> (m_is_deprecated (fetchType rootTypes (?ys ! i))
           = m_is_deprecated (fetchType rootTypes (?ys ! j))
         \<longrightarrow> m_since (fetchType rootTypes (?ys ! i)) \<le> m_since (fetchType rootTypes (?ys ! j)))"
    if "i < j" "j < length ?ys" for i j
  proof -
    from srtd that have "map (sortKey rootTypes) ?ys ! i \<le> map (sortKey rootTypes) ?ys ! j"
      by (intro sorted_nth_mono) simp_all
    with that have "sortKey rootTypes (?ys ! i) \<le> sortKey rootTypes (?ys ! j)"
      by simp
    then show ?thesis
      by (auto simp: sortKey_def Let_def less_eq_prod_def)
  qed
  have all: "\<forall>i j. i < j \<and> j < length ?ys \<longrightarrow>
      (m_is_deprecated (fetchType rootTypes (?ys ! j))
        \<longrightarrow> m_is_deprecated (fetchType rootTypes (?ys ! i)))
      \<and> (m_is_deprecated (fetchType rootTypes (?ys ! i))
           = m_is_deprecated (fetchType rootTypes (?ys ! j))
         \<longrightarrow> m_since (fetchType rootTypes (?ys ! i)) \<le> m_since (fetchType rootTypes (?ys ! j)))"
    using ord by blast
  have uniq: "distinct (map (sortKey rootTypes) (m_items p)) \<longrightarrow>
      ?ys = sort_key (sortKey rootTypes) (m_items p)"
    using std_sort_unique [OF assms(1)] by blast
  from perm all uniq have general: "let p' = snd (Meta_writeProperty srt rootTypes p interface) in
     mset (m_items p') = mset (m_items p)
     \<and> (\<forall>i j. i < j \<and> j < length (m_items p') \<longrightarrow>
          (let a = fetchType rootTypes (m_items p' ! i);
               b = fetchType rootTypes (m_items p' ! j)
           in (m_is_deprecated b \<longrightarrow> m_is_deprecated a)
              \<and> (m_is_deprecated a = m_is_deprecated b \<longrightarrow> m_since a \<le> m_since b)))
     \<and> (distinct (map (sortKey rootTypes) (m_items p)) \<longrightarrow>
          m_items p' = sort_key (sortKey rootTypes) (m_items p))
     \<and> m_value p' = ''std::variant<'' @ join '', '' (map m_value (m_items p')) @ ''>''"
    unfolding Let_def Meta_writeProperty_Or [OF assms(2)]
    by (simp add: variantOf_def)
  have k: "m_kind unionExample = Kind_Or"
    by (simp add: unionExample_def)
  have "distinct (map (sortKey rootTypes) (m_items unionExample))"
    by (simp add: unionExample_def sortKey_def fetchType_def)
  then have "srt (sortKey rootTypes) (m_items unionExample)
      = sort_key (sortKey rootTypes) (m_items unionExample)"
    by (rule std_sort_unique [OF assms(1)])
  then have "map m_value (m_items (snd (Meta_writeProperty srt rootTypes unionExample interface)))
      = [''A'', ''C'', ''B'']"
    unfolding Meta_writeProperty_Or [OF k]
    by (simp add: unionExample_def sortKey_def fetchType_def)
  with general show ?thesis
    by (rule conjI)
qed

theorem union_reordered_witness:
  "std_sort sort_key \<and> m_kind unionExample = Kind_Or
   \<and> m_value (snd (Meta_writeProperty sort_key [] unionExample ''Hover''))
       = ''std::variant<A, C, B>''"
  using union_reordered [OF std_sort_sort_key, of unionExample "[]" "''Hover''", THEN conjunct1]
    std_sort_sort_key
  by (simp add: unionExample_def Let_def sortKey_def fetchType_def)

subsection \<open>A property to which two renderings apply\<close>

text \<open>
  Claim C6, as it is stated, fails: neither \<^verbatim>\<open>writeProperty\<close> has an error to raise.  A
  string-literal property whose value is the name of the enclosing interface is written as
  a \<^verbatim>\<open>std::unique_ptr\<close> field, by the order of the tests.
\<close>

theorem kind_clash_counterexample:
  "fst (Meta_writeProperty sort_key []
     (MetaType ''kind'' [] Kind_StringLiteral ''create'' [] [] False [] False []) ''create'')
     = ''std::unique_ptr<create> kind;'' @ nl
   \<and> writeProperty \<lparr>p_name = ''kind'', p_dataType = [squote] @ ''create'' @ [squote], p_comment = []\<rparr>
        ([squote] @ ''create'' @ [squote])
     = ''std::unique_ptr<'' @ [squote] @ ''create'' @ [squote] @ ''> kind;'' @ nl"
  by (simp add: Let_def removeChar_def writeProperty_def startsWith_def squote_def)

text \<open>
  Claim C6, amended.  When two renderings apply to a property the writer raises nothing and
  picks by the fixed order of its tests.  A property of the type of its interface is
  written as a \<^verbatim>\<open>std::unique_ptr\<close> field, whatever else holds of it; otherwise a property
  with the optional mark is written as a \<^verbatim>\<open>std::optional\<close> field, string literal or not;
  otherwise a string literal is written as a constant; otherwise the property is written
  as a plain field.  In the meta-model writer the type text of a union is the variant over
  the reordered alternatives, and the documentation of a string literal is followed by the
  texts of its items.
\<close>

theorem writeProperty_precedence:
  "(p_dataType p = interface \<longrightarrow>
      writeProperty p interface =
        p_comment p @ ''std::unique_ptr<'' @ p_dataType p @ ''> '' @
          removeChar (CHR ''?'') (removeStr ''readonly '' (p_name p)) @ '';'' @ nl)
   \<and> (p_dataType p \<noteq> interface \<and> CHR ''?'' \<in> set (p_name p) \<longrightarrow>
      writeProperty p interface =
        p_comment p @ ''std::optional<'' @ p_dataType p @ ''> '' @
          removeChar (CHR ''?'') (removeStr ''readonly '' (p_name p)) @ '';'' @ nl)
   \<and> (p_dataType p \<noteq> interface \<and> CHR ''?'' \<notin> set (p_name p)
        \<and> startsWith squote (p_dataType p) \<longrightarrow>
      writeProperty p interface =
        p_comment p @ ''static inline const std::string '' @
          removeStr ''readonly '' (p_name p) @ '' = '' @
          replaceChar squote (CHR 0x22) (p_dataType p) @ '';'' @ nl)
   \<and> (p_dataType p \<noteq> interface \<and> CHR ''?'' \<notin> set (p_name p)
        \<and> \<not> startsWith squote (p_dataType p) \<longrightarrow>
      writeProperty p interface =
        p_comment p @ p_dataType p @ '' '' @ removeStr ''readonly '' (p_name p) @ '';'' @ nl)
   \<and> (let documentation = m_documentation m @
              (if m_kind m = Kind_StringLiteral
               then concat (map (\<lambda>item. fst (Meta_writeProperty srt rootTypes item interface))
                              (m_items m))
               else []);
            val = (if m_kind m = Kind_Or then variantOf (srt (sortKey rootTypes) (m_items m))
                   else m_value m)
       in (m_value m = interface \<longrightarrow>
             fst (Meta_writeProperty srt rootTypes m interface) =
               documentation @ ''std::unique_ptr<'' @ val @ ''> '' @
                 removeChar (CHR ''?'') (m_name m) @ '';'' @ nl)
          \<and> (m_value m \<noteq> interface \<and> CHR ''?'' \<in> set (m_name m) \<longrightarrow>
             fst (Meta_writeProperty srt rootTypes m interface) =
               documentation @ ''std::optional<'' @ val @ ''> '' @
                 removeChar (CHR ''?'') (m_name m) @ '';'' @ nl)
          \<and> (m_value m \<noteq> interface \<and> CHR ''?'' \<notin> set (m_name m)
               \<and> m_kind m = Kind_StringLiteral \<longrightarrow>
             fst (Meta_writeProperty srt rootTypes m interface) =
               documentation @ ''static inline const std::string '' @ m_name m @ '' = '' @
                 dquote @ m_value m @ dquote @ '';'' @ nl)
          \<and> (m_value m \<noteq> interface \<and> CHR ''?'' \<notin> set (m_name m)
               \<and> m_kind m \<noteq> Kind_StringLiteral \<longrightarrow>
             fst (Meta_writeProperty srt rootTypes m interface) =
               m_documentation m @ val @ '' '' @ m_name m @ '';'' @ nl))"
proof -
  have table: "(p_dataType p = interface \<longrightarrow>
      writeProperty p interface =
        p_comment p @ ''std::unique_ptr<'' @ p_dataType p @ ''> '' @
          removeChar (CHR ''?'') (removeStr ''readonly '' (p_name p)) @ '';'' @ nl)
   \<and> (p_dataType p \<noteq> interface \<and> CHR ''?'' \<in> set (p_name p) \<longrightarrow>
      writeProperty p interface =
        p_comment p @ ''std::optional<'' @ p_dataType p @ ''> '' @
          removeChar (CHR ''?'') (removeStr ''readonly '' (p_name p)) @ '';'' @ nl)
   \<and> (p_dataType p \<noteq> interface \<and> CHR ''?'' \<notin> set (p_name p)
        \<and> startsWith squote (p_dataType p) \<longrightarrow>
      writeProperty p interface =
        p_comment p @ ''static inline const std::string '' @
          removeStr ''readonly '' (p_name p) @ '' = '' @
          replaceChar squote (CHR 0x22) (p_dataType p) @ '';'' @ nl)
   \<and> (p_dataType p \<noteq> interface \<and> CHR ''?'' \<notin> set (p_name p)
        \<and> \<not> startsWith squote (p_dataType p) \<longrightarrow>
      writeProperty p interface =
        p_comment p @ p_dataType p @ '' '' @ removeStr ''readonly '' (p_name p) @ '';'' @ nl)"
    by (simp add: writeProperty_def Let_def)
  have meta: "let documentation = m_documentation m @
              (if m_kind m = Kind_StringLiteral
               then concat (map (\<lambda>item. fst (Meta_writeProperty srt rootTypes item interface))
                              (m_items m))
               else []);
            val = (if m_kind m = Kind_Or then variantOf (srt (sortKey rootTypes) (m_items m))
                   else m_value m)
       in (m_value m = interface \<longrightarrow>
             fst (Meta_writeProperty srt rootTypes m interface) =
               documentation @ ''std::unique_ptr<'' @ val @ ''> '' @
                 removeChar (CHR ''?'') (m_name m) @ '';'' @ nl)
          \<and> (m_value m \<noteq> interface \<and> CHR ''?'' \<in> set (m_name m) \<longrightarrow>
             fst (Meta_writeProperty srt rootTypes m interface) =
               documentation @ ''std::optional<'' @ val @ ''> '' @
                 removeChar (CHR ''?'') (m_name m) @ '';'' @ nl)
          \<and> (m_value m \<noteq> interface \<and> CHR ''?'' \<notin> set (m_name m)
               \<and> m_kind m = Kind_StringLiteral \<longrightarrow>
             fst (Meta_writeProperty srt rootTypes m interface) =
               documentation @ ''static inline const std::string '' @ m_name m @ '' = '' @
                 dquote @ m_value m @ dquote @ '';'' @ nl)
          \<and> (m_value m \<noteq> interface \<and> CHR ''?'' \<notin> set (m_name m)
               \<and> m_kind m \<noteq> Kind_StringLiteral \<longrightarrow>
             fst (Meta_writeProperty srt rootTypes m interface) =
               m_documentation m @ val @ '' '' @ m_name m @ '';'' @ nl)"
    by (simp add: Meta_writeProperty_text Let_def)
  from table meta show ?thesis
    by (simp only: conj_assoc simp_thms)
qed


theorem writeProperty_precedence_witness:
  "writeProperty \<lparr>p_name = ''kind?'', p_dataType = ''create'', p_comment = ''// d''\<rparr> ''create''
     = ''// dstd::unique_ptr<create> kind;'' @ nl
   \<and> writeProperty
       \<lparr>p_name = ''kind?'', p_dataType = [squote] @ ''create'' @ [squote], p_comment = []\<rparr>
       ''CreateFile''
     = ''std::optional<'' @ [squote] @ ''create'' @ [squote] @ ''> kind;'' @ nl
   \<and> writeProperty
       \<lparr>p_name = ''kind'', p_dataType = [squote] @ ''create'' @ [squote], p_comment = []\<rparr>
       ''CreateFile''
     = ''static inline const std::string kind = '' @ dquote @ ''create'' @ dquote @ '';'' @ nl
   \<and> writeProperty
       \<lparr>p_name = ''readonly uri'', p_dataType = ''std::string'', p_comment = []\<rparr> ''Hover''
     = ''std::string uri;'' @ nl
   \<and> fst (Meta_writeProperty sort_key []
       (MetaType ''kind?'' ''// d'' Kind_StringLiteral ''create'' [] [] False [] False [])
       ''create'')
     = ''// dstd::unique_ptr<create> kind;'' @ nl
   \<and> fst (Meta_writeProperty sort_key []
       (MetaType ''kind?'' ''// d'' Kind_StringLiteral ''create'' [] [] False [] False [])
       ''CreateFile'')
     = ''// dstd::optional<create> kind;'' @ nl
   \<and> fst (Meta_writeProperty sort_key []
       (MetaType ''kind'' [] Kind_StringLiteral ''create'' [] [] False [] False [])
       ''CreateFile'')
     = ''static inline const std::string kind = '' @ dquote @ ''create'' @ dquote @ '';'' @ nl
   \<and> fst (Meta_writeProperty sort_key []
       (MetaType ''uri'' [] Kind_Other ''std::string'' [] [] False [] False []) ''Hover'')
     = ''std::string uri;'' @ nl"
proof -
  have 1: "writeProperty \<lparr>p_name = ''kind?'', p_dataType = ''create'', p_comment = ''// d''\<rparr>
       ''create''
     = ''// dstd::unique_ptr<create> kind;'' @ nl
   \<and> fst (Meta_writeProperty sort_key []
       (MetaType ''kind?'' ''// d'' Kind_StringLiteral ''create'' [] [] False [] False [])
       ''create'')
     = ''// dstd::unique_ptr<create> kind;'' @ nl"
    using writeProperty_precedence
      [where p = "\<lparr>p_name = ''kind?'', p_dataType = ''create'', p_comment = ''// d''\<rparr>"
         and interface = "''create''" and srt = sort_key and rootTypes = "[]"
         and m = "MetaType ''kind?'' ''// d'' Kind_StringLiteral ''create'' [] [] False [] False []"]
    by (simp add: Let_def removeChar_def)
  have 2: "writeProperty
       \<lparr>p_name = ''kind?'', p_dataType = [squote] @ ''create'' @ [squote], p_comment = []\<rparr>
       ''CreateFile''
     = ''std::optional<'' @ [squote] @ ''create'' @ [squote] @ ''> kind;'' @ nl
   \<and> fst (Meta_writeProperty sort_key []
       (MetaType ''kind?'' ''// d'' Kind_StringLiteral ''create'' [] [] False [] False [])
       ''CreateFile'')
     = ''// dstd::optional<create> kind;'' @ nl"
    using writeProperty_precedence
      [where p = "\<lparr>p_name = ''kind?'', p_dataType = [squote] @ ''create'' @ [squote],
                    p_comment = []\<rparr>"
         and interface = "''CreateFile''" and srt = sort_key and rootTypes = "[]"
         and m = "MetaType ''kind?'' ''// d'' Kind_StringLiteral ''create'' [] [] False [] False []"]
    by (simp add: Let_def removeChar_def squote_def)
  have 3: "writeProperty
       \<lparr>p_name = ''kind'', p_dataType = [squote] @ ''create'' @ [squote], p_comment = []\<rparr>
       ''CreateFile''
     = ''static inline const std::string kind = '' @ dquote @ ''create'' @ dquote @ '';'' @ nl
   \<and> fst (Meta_writeProperty sort_key []
       (MetaType ''kind'' [] Kind_StringLiteral ''create'' [] [] False [] False [])
       ''CreateFile'')
     = ''static inline const std::string kind = '' @ dquote @ ''create'' @ dquote @ '';'' @ nl"
    using writeProperty_precedence
      [where p = "\<lparr>p_name = ''kind'', p_dataType = [squote] @ ''create'' @ [squote],
                    p_comment = []\<rparr>"
         and interface = "''CreateFile''" and srt = sort_key and rootTypes = "[]"
         and m = "MetaType ''kind'' [] Kind_StringLiteral ''create'' [] [] False [] False []"]
    by (simp add: Let_def squote_def dquote_def startsWith_def replaceChar_def)
  have 4: "writeProperty
       \<lparr>p_name = ''readonly uri'', p_dataType = ''std::string'', p_comment = []\<rparr> ''Hover''
     = ''std::string uri;'' @ nl
   \<and> fst (Meta_writeProperty sort_key []
       (MetaType ''uri'' [] Kind_Other ''std::string'' [] [] False [] False []) ''Hover'')
     = ''std::string uri;'' @ nl"
    using writeProperty_precedence
      [where p = "\<lparr>p_name = ''readonly uri'', p_dataType = ''std::string'', p_comment = []\<rparr>"
         and interface = "''Hover''" and srt = sort_key and rootTypes = "[]"
         and m = "MetaType ''uri'' [] Kind_Other ''std::string'' [] [] False [] False []"]
    by (simp add: Let_def squote_def startsWith_def)
  from 1 2 3 4 show ?thesis
    by (simp only: simp_thms)
qed

subsection \<open>Files that cannot be opened or written\<close>

text \<open>
  Claim C7, as it is stated, fails: when the file cannot be opened the save functions
  return to the caller as they do after a success, with nothing written, and they have
  no way of reporting an error.
\<close>

theorem open_failure_counterexample:
  "saveNotifications ''/lsp'' deafEnv
     \<lparr>d_notifications = [\<lparr>n_method = ''initialized'', n_params = ''InitializedParams''\<rparr>],
      d_requests = [], d_enumerations = [], d_types = [], d_interfaces = []\<rparr> = Some []
   \<and> Meta_saveCode ''/lsp'' deafEnv sort_key keepOrder 1
     \<lparr>md_notifications = [], md_requests = [], md_enumerations = [],
      md_types = [MetaType ''URI'' [] Kind_Other ''std::string'' [] [] False [] False []],
      md_interfaces = []\<rparr> = Some []"
  by (simp add: saveNotifications_def Meta_saveCode_def deafEnv_def Meta_cleanCode_def Let_def)

text \<open>
  Claim C7, amended.  When the output file cannot be opened, the save function returns
  normally without writing the artifact and reports nothing; \<^verbatim>\<open>saveCode\<close> returns at the
  first file that it cannot open, so the bindings are not written either when \<^verbatim>\<open>types.h\<close>
  cannot be opened.  The result of writing is never read: the function returns normally
  whatever the device has kept of the text.
\<close>

theorem save_failures_are_silent:
  "(\<not> canOpen env (P @ ''/notifications.h'') \<longrightarrow>
      saveNotifications P env d = Some [] \<and> Meta_saveNotifications P env md = Some [])
   \<and> (\<not> canOpen env (P @ ''/requests.h'') \<longrightarrow>
      saveRequests P env d = Some [] \<and> Meta_saveRequests P env md = Some [])
   \<and> (Meta_cleanCode md = Some md' \<and> \<not> canOpen env (P @ ''/types.h'') \<longrightarrow>
      Meta_saveCode P env srt presort depth md = Some [])
   \<and> (Meta_cleanCode md = Some md' \<and> canOpen env (P @ ''/types.h'')
       \<and> Meta_writeTypesAndInterfaces srt presort md' = Some (text, written)
       \<and> \<not> canOpen env (P @ ''/types_json.h'') \<longrightarrow>
      Meta_saveCode P env srt presort depth md =
        Some [(P @ ''/types.h'',
               kept env (P @ ''/types.h'')
                 (CodeHeader (Meta_writeEnums (md_enumerations md') @ text)))])
   \<and> (canOpen env (P @ ''/notifications.h'') \<and> notificationsText (d_notifications d) = Some t \<longrightarrow>
      saveNotifications P env d =
        Some [(P @ ''/notifications.h'', kept env (P @ ''/notifications.h'') (NotificationHeader t))])"
  by (simp add: saveNotifications_def Meta_saveNotifications_def saveRequests_def
      Meta_saveRequests_def Meta_saveCode_def Let_def)

theorem save_failures_are_silent_witness:
  "\<not> canOpen deafEnv (''/lsp'' @ ''/notifications.h'')
   \<and> saveNotifications ''/lsp'' deafEnv
     \<lparr>d_notifications = [\<lparr>n_method = ''initialized'', n_params = ''InitializedParams''\<rparr>],
      d_requests = [], d_enumerations = [], d_types = [], d_interfaces = []\<rparr> = Some []"
  using save_failures_are_silent [where env = deafEnv and P = "''/lsp''"
    and d = "\<lparr>d_notifications = [\<lparr>n_method = ''initialized'', n_params = ''InitializedParams''\<rparr>],
      d_requests = [], d_enumerations = [], d_types = [], d_interfaces = []\<rparr>"]
  by (simp add: deafEnv_def)

subsection \<open>The emission loops\<close>












lemma pruneInterface_sel [simp]:
  "i_name (pruneInterface names i) = i_name i"
  "i_dependencies (pruneInterface names i) = removeAllNames names (i_dependencies i)"
  by (cases i; simp)+

lemma Meta_prune_sel [simp]:
  "m_name (Meta_prune names t) = m_name t"
  "m_dependencies (Meta_prune names t) = removeAllNames names (m_dependencies t)"
  by (cases t; simp)+

lemma pruneType_sel [simp]:
  "t_name (pruneType names t) = t_name t"
  "t_dependencies (pruneType names t) = removeAllNames names (t_dependencies t)"
  by (simp_all add: pruneType_def)







lemma Meta_prune_keys [simp]:
  "m_is_deprecated (Meta_prune names t) = m_is_deprecated t"
  "m_since (Meta_prune names t) = m_since t"
  by (cases t; simp)+














lemma writeType_pruneType [simp]: "writeType (pruneType names t) = writeType t"
  by (simp add: writeType_def pruneType_def)

lemma writeMainInterface_pruneInterface [simp]:
  "writeMainInterface (pruneInterface names i) = writeMainInterface i"
  by (cases i) (simp add: writeMainInterface_def)

lemma Meta_writeRoot_prune [simp]:
  "Meta_writeRoot srt R (Meta_prune names t) = Meta_writeRoot srt R t"
  by (cases t)
    (simp add: Meta_writeRoot_def Meta_writeMainInterface_def Meta_writeType_def cong: if_cong)










lemma removeAllNames_Nil [simp]: "removeAllNames [] deps = deps"
  by (simp add: removeAllNames_def)

lemma pruneType_Nil [simp]: "pruneType [] t = t"
  by (simp add: pruneType_def)

lemma pruneInterface_Nil [simp]: "pruneInterface [] i = i"
  by (cases i) simp

lemma Meta_prune_Nil [simp]: "Meta_prune [] t = t"
  by (cases t) simp

lemma map_prune_Nil [simp]:
  "map (pruneType []) ts = ts"
  "map (pruneInterface []) is = is"
  "map (Meta_prune []) ms = ms"
  by (simp_all add: map_idI)

lemma writeLoop_blocked_aux:
  "writeLoop result written types interfaces = Some y \<Longrightarrow>
   \<not> ((types \<noteq> [] \<or> interfaces \<noteq> []) \<and> (\<forall>t\<in>set types. t_dependencies t \<noteq> [])
      \<and> (\<forall>i\<in>set interfaces. i_dependencies i \<noteq> []))"
proof (induction rule: writeLoop.raw_induct [rotated 1, consumes 1])
  case (1 loop result written types interfaces y)
  show ?case
  proof
    assume b: "(types \<noteq> [] \<or> interfaces \<noteq> []) \<and> (\<forall>t\<in>set types. t_dependencies t \<noteq> [])
      \<and> (\<forall>i\<in>set interfaces. i_dependencies i \<noteq> [])"
    then have f: "filter (\<lambda>t. t_dependencies t = []) types = []"
      "filter (\<lambda>t. t_dependencies t \<noteq> []) types = types"
      "filter (\<lambda>i. i_dependencies i = []) interfaces = []"
      "filter (\<lambda>i. i_dependencies i \<noteq> []) interfaces = interfaces"
      by simp_all
    from b "1.hyps" have "loop result written types interfaces = Some y"
      by (auto simp: stable_partition_def f Let_def split: if_splits)
    from "1.IH" [OF this] b show False
      by blast
  qed
qed

lemma writeLoop_blocked:
  assumes "types \<noteq> [] \<or> interfaces \<noteq> []"
    and "\<forall>t\<in>set types. t_dependencies t \<noteq> []"
    and "\<forall>i\<in>set interfaces. i_dependencies i \<noteq> []"
  shows "writeLoop result written types interfaces = None"
proof (cases "writeLoop result written types interfaces")
  case None
  then show ?thesis .
next
  case (Some y)
  from writeLoop_blocked_aux [OF this] assms show ?thesis
    by blast
qed

lemma Meta_writeLoop_blocked_aux:
  "Meta_writeLoop srt result written remaining = Some y \<Longrightarrow>
   \<not> (remaining \<noteq> [] \<and> (\<forall>t\<in>set remaining. m_dependencies t \<noteq> []))"
proof (induction rule: Meta_writeLoop.raw_induct [rotated 1, consumes 1])
  case (1 loop srt result written remaining y)
  show ?case
  proof
    assume b: "remaining \<noteq> [] \<and> (\<forall>t\<in>set remaining. m_dependencies t \<noteq> [])"
    then have f: "filter (\<lambda>t. m_dependencies t = []) remaining = []"
      "filter (\<lambda>t. m_dependencies t \<noteq> []) remaining = remaining"
      by simp_all
    from b "1.hyps" have "loop srt result written remaining = Some y"
      by (auto simp: stable_partition_def f Let_def split: if_splits)
    from "1.IH" [OF this] b show False
      by blast
  qed
qed

lemma Meta_writeLoop_blocked:
  assumes "remaining \<noteq> []" and "\<forall>t\<in>set remaining. m_dependencies t \<noteq> []"
  shows "Meta_writeLoop srt result written remaining = None"
proof (cases "Meta_writeLoop srt result written remaining")
  case None
  then show ?thesis .
next
  case (Some y)
  from Meta_writeLoop_blocked_aux [OF this] assms show ?thesis
    by blast
qed


text \<open>
  Claim C3, as it is stated, fails: the loops have no test for a wave that writes nothing
  and no error to raise.  With a cycle between two interfaces, or with a dependency name
  that no entity has, every iteration leaves the state as it is and the loop does not
  return.
\<close>

theorem blocked_counterexample:
  "writeLoop [] [] [] [cycleA, cycleB] = None
   \<and> Meta_writeLoop sort_key [] [] [danglingT] = None"
  using writeLoop_blocked [of "[]" "[cycleA, cycleB]" "[]" "[]"]
    Meta_writeLoop_blocked [of "[danglingT]" sort_key "[]" "[]"]
  by (simp add: cycleA_def cycleB_def danglingT_def)

text \<open>
  Claim C3, amended.  When an iteration writes no entity while type aliases or interfaces
  remain (every remaining entity has a dependency left), no error is raised or reported:
  the iteration leaves the state as it is, and the writer never returns.
\<close>

theorem blocked_loop_never_returns:
  "((types \<noteq> [] \<or> interfaces \<noteq> []) \<and> (\<forall>t\<in>set types. t_dependencies t \<noteq> [])
      \<and> (\<forall>i\<in>set interfaces. i_dependencies i \<noteq> [])
     \<longrightarrow> writeLoop result written types interfaces = None)
   \<and> (remaining \<noteq> [] \<and> (\<forall>t\<in>set remaining. m_dependencies t \<noteq> [])
     \<longrightarrow> Meta_writeLoop srt mresult mwritten remaining = None)"
  using writeLoop_blocked Meta_writeLoop_blocked by blast

theorem blocked_loop_never_returns_witness:
  "writeLoop ''// text'' [TypeEntity uriType] [docsType] [cycleB, cycleA] = None
   \<and> Meta_writeLoop sort_key [] [interfaceI] [danglingT] = None"
  using blocked_loop_never_returns [of "[docsType]" "[cycleB, cycleA]" "''// text''"
      "[TypeEntity uriType]" "[danglingT]" sort_key "[]" "[interfaceI]"]
  by (simp add: cycleA_def cycleB_def danglingT_def docsType_def)





subsection \<open>The flattened property list\<close>

lemma fold_appendBase_None: "fold (appendBase lookup rec) es None = None"
  by (induction es) (simp_all add: appendBase_def)

lemma fold_appendBase_Some:
  "fold (appendBase lookup rec) es (Some acc) = Some r \<longleftrightarrow>
     (\<exists>pss. list_all2 (\<lambda>e ps. (lookup e = None \<and> ps = [])
                 \<or> (\<exists>b. lookup e = Some b \<and> rec b = Some ps)) es pss
            \<and> r = acc @ concat pss)"
proof (induction es arbitrary: acc)
  case Nil
  then show ?case by auto
next
  case (Cons e es)
  show ?case
  proof (cases "lookup e")
    case None
    then have "fold (appendBase lookup rec) (e # es) (Some acc)
        = fold (appendBase lookup rec) es (Some acc)"
      by (simp add: appendBase_def)
    with None Cons.IH [of acc] show ?thesis
      by (auto simp: list_all2_Cons1)
  next
    case (Some b)
    show ?thesis
    proof (cases "rec b")
      case None
      with Some have "fold (appendBase lookup rec) (e # es) (Some acc) = None"
        by (simp add: appendBase_def fold_appendBase_None)
      with None Some show ?thesis
        by (auto simp: list_all2_Cons1)
    next
      case (Some ps)
      with \<open>lookup e = Some b\<close>
      have "fold (appendBase lookup rec) (e # es) (Some acc)
          = fold (appendBase lookup rec) es (Some (acc @ ps))"
        by (simp add: appendBase_def)
      with Some \<open>lookup e = Some b\<close> Cons.IH [of "acc @ ps"] show ?thesis
        by (auto simp: list_all2_Cons1)
    qed
  qed
qed

lemma interfaceProperties_Suc:
  "interfaceProperties (Suc depth) interface interfaces =
     fold (appendBase (\<lambda>extend. find (\<lambda>i. i_name i = extend) interfaces)
             (\<lambda>it. interfaceProperties depth it interfaces))
       (i_extends interface) (Some (ownProperties interface))"
  by (simp add: appendBase_def [abs_def])

lemma Meta_interfaceProperties_Suc:
  "Meta_interfaceProperties (Suc depth) interface interfaces =
     fold (appendBase (\<lambda>extend. find (\<lambda>i. m_name i = m_value extend) interfaces)
             (\<lambda>it. Meta_interfaceProperties depth it interfaces))
       (m_extends interface) (Some (Meta_ownProperties interface))"
  by (simp add: appendBase_def [abs_def])

lemma interfaceProperties_flattened:
  "interfaceProperties depth interface interfaces = Some ps \<Longrightarrow> flattened interfaces interface ps"
proof (induction depth arbitrary: interface ps)
  case 0
  then show ?case by simp
next
  case (Suc depth)
  from Suc.prems obtain pss where pss:
    "list_all2 (\<lambda>e ps. (find (\<lambda>i. i_name i = e) interfaces = None \<and> ps = [])
        \<or> (\<exists>b. find (\<lambda>i. i_name i = e) interfaces = Some b
              \<and> interfaceProperties depth b interfaces = Some ps)) (i_extends interface) pss"
    "ps = ownProperties interface @ concat pss"
    unfolding interfaceProperties_Suc fold_appendBase_Some by blast
  from pss(1) have "list_all2 (\<lambda>e ps. (find (\<lambda>i. i_name i = e) interfaces = None \<and> ps = [])
        \<or> (\<exists>b. find (\<lambda>i. i_name i = e) interfaces = Some b
              \<and> flattened interfaces b ps)) (i_extends interface) pss"
    by (rule list_all2_mono) (use Suc.IH in blast)
  then show ?case
    unfolding pss(2) by (rule flattened.intros)
qed

lemma interfaceProperties_mono:
  "interfaceProperties depth interface interfaces = Some ps \<Longrightarrow> depth \<le> depth' \<Longrightarrow>
   interfaceProperties depth' interface interfaces = Some ps"
proof (induction depth arbitrary: depth' interface ps)
  case 0
  then show ?case by simp
next
  case (Suc depth)
  from Suc.prems(2) obtain d where d: "depth' = Suc d" "depth \<le> d"
    by (cases depth') auto
  from Suc.prems(1) obtain pss where pss:
    "list_all2 (\<lambda>e ps. (find (\<lambda>i. i_name i = e) interfaces = None \<and> ps = [])
        \<or> (\<exists>b. find (\<lambda>i. i_name i = e) interfaces = Some b
              \<and> interfaceProperties depth b interfaces = Some ps)) (i_extends interface) pss"
    "ps = ownProperties interface @ concat pss"
    unfolding interfaceProperties_Suc fold_appendBase_Some by blast
  from pss(1) have "list_all2 (\<lambda>e ps. (find (\<lambda>i. i_name i = e) interfaces = None \<and> ps = [])
        \<or> (\<exists>b. find (\<lambda>i. i_name i = e) interfaces = Some b
              \<and> interfaceProperties d b interfaces = Some ps)) (i_extends interface) pss"
    by (rule list_all2_mono) (use Suc.IH d(2) in blast)
  with pss(2) show ?case
    unfolding d(1) interfaceProperties_Suc fold_appendBase_Some by blast
qed

lemma list_all2_common_depth:
  fixes f :: "nat \<Rightarrow> 'b \<Rightarrow> 'c option"
  assumes "list_all2 (\<lambda>e ps. A e ps \<or> (\<exists>b. L e = Some b \<and> (\<exists>depth. f depth b = Some ps))) es pss"
    and mono: "\<And>depth depth' b ps. f depth b = Some ps \<Longrightarrow> depth \<le> depth' \<Longrightarrow> f depth' b = Some ps"
  shows "\<exists>depth. list_all2 (\<lambda>e ps. A e ps \<or> (\<exists>b. L e = Some b \<and> f depth b = Some ps)) es pss"
  using assms(1)
proof (induction rule: list_all2_induct)
  case Nil
  then show ?case by simp
next
  case (Cons e es ps pss)
  from Cons.IH obtain d1 where d1:
    "list_all2 (\<lambda>e ps. A e ps \<or> (\<exists>b. L e = Some b \<and> f d1 b = Some ps)) es pss"
    by blast
  from Cons.hyps(1) obtain d2 where d2: "A e ps \<or> (\<exists>b. L e = Some b \<and> f d2 b = Some ps)"
    by blast
  have "list_all2 (\<lambda>e ps. A e ps \<or> (\<exists>b. L e = Some b \<and> f (max d1 d2) b = Some ps)) es pss"
    using d1 by (rule list_all2_mono) (use mono [OF _ max.cobounded1 [of d1 d2]] in blast)
  moreover have "A e ps \<or> (\<exists>b. L e = Some b \<and> f (max d1 d2) b = Some ps)"
    using d2 mono [OF _ max.cobounded2 [of d2 d1]] by blast
  ultimately show ?case
    by (auto intro!: exI [of _ "max d1 d2"])
qed

lemma flattened_interfaceProperties:
  "flattened interfaces interface ps \<Longrightarrow>
   \<exists>depth. interfaceProperties depth interface interfaces = Some ps"
proof (induction rule: flattened.induct)
  case (1 interface pss)
  from 1 have "list_all2 (\<lambda>e ps. (find (\<lambda>i. i_name i = e) interfaces = None \<and> ps = [])
        \<or> (\<exists>b. find (\<lambda>i. i_name i = e) interfaces = Some b
              \<and> (\<exists>depth. interfaceProperties depth b interfaces = Some ps)))
      (i_extends interface) pss"
    by (rule list_all2_mono) blast
  then have "\<exists>depth. list_all2 (\<lambda>e ps. (find (\<lambda>i. i_name i = e) interfaces = None \<and> ps = [])
        \<or> (\<exists>b. find (\<lambda>i. i_name i = e) interfaces = Some b
              \<and> interfaceProperties depth b interfaces = Some ps)) (i_extends interface) pss"
    by (rule list_all2_common_depth
        [where f = "\<lambda>depth b. interfaceProperties depth b interfaces"
           and L = "\<lambda>e. find (\<lambda>i. i_name i = e) interfaces"
           and A = "\<lambda>e ps. find (\<lambda>i. i_name i = e) interfaces = None \<and> ps = []"])
      (rule interfaceProperties_mono)
  then obtain depth where "list_all2 (\<lambda>e ps. (find (\<lambda>i. i_name i = e) interfaces = None \<and> ps = [])
        \<or> (\<exists>b. find (\<lambda>i. i_name i = e) interfaces = Some b
              \<and> interfaceProperties depth b interfaces = Some ps)) (i_extends interface) pss"
    by blast
  then have "interfaceProperties (Suc depth) interface interfaces
      = Some (ownProperties interface @ concat pss)"
    unfolding interfaceProperties_Suc fold_appendBase_Some by blast
  then show ?case
    by blast
qed

lemma Meta_interfaceProperties_flattened:
  "Meta_interfaceProperties depth interface interfaces = Some ps \<Longrightarrow> Meta_flattened interfaces interface ps"
proof (induction depth arbitrary: interface ps)
  case 0
  then show ?case by simp
next
  case (Suc depth)
  from Suc.prems obtain pss where pss:
    "list_all2 (\<lambda>e ps. (find (\<lambda>i. m_name i = m_value e) interfaces = None \<and> ps = [])
        \<or> (\<exists>b. find (\<lambda>i. m_name i = m_value e) interfaces = Some b
              \<and> Meta_interfaceProperties depth b interfaces = Some ps)) (m_extends interface) pss"
    "ps = Meta_ownProperties interface @ concat pss"
    unfolding Meta_interfaceProperties_Suc fold_appendBase_Some by blast
  from pss(1) have "list_all2 (\<lambda>e ps. (find (\<lambda>i. m_name i = m_value e) interfaces = None \<and> ps = [])
        \<or> (\<exists>b. find (\<lambda>i. m_name i = m_value e) interfaces = Some b
              \<and> Meta_flattened interfaces b ps)) (m_extends interface) pss"
    by (rule list_all2_mono) (use Suc.IH in blast)
  then show ?case
    unfolding pss(2) by (rule Meta_flattened.intros)
qed

lemma Meta_interfaceProperties_mono:
  "Meta_interfaceProperties depth interface interfaces = Some ps \<Longrightarrow> depth \<le> depth' \<Longrightarrow>
   Meta_interfaceProperties depth' interface interfaces = Some ps"
proof (induction depth arbitrary: depth' interface ps)
  case 0
  then show ?case by simp
next
  case (Suc depth)
  from Suc.prems(2) obtain d where d: "depth' = Suc d" "depth \<le> d"
    by (cases depth') auto
  from Suc.prems(1) obtain pss where pss:
    "list_all2 (\<lambda>e ps. (find (\<lambda>i. m_name i = m_value e) interfaces = None \<and> ps = [])
        \<or> (\<exists>b. find (\<lambda>i. m_name i = m_value e) interfaces = Some b
              \<and> Meta_interfaceProperties depth b interfaces = Some ps)) (m_extends interface) pss"
    "ps = Meta_ownProperties interface @ concat pss"
    unfolding Meta_interfaceProperties_Suc fold_appendBase_Some by blast
  from pss(1) have "list_all2 (\<lambda>e ps. (find (\<lambda>i. m_name i = m_value e) interfaces = None \<and> ps = [])
        \<or> (\<exists>b. find (\<lambda>i. m_name i = m_value e) interfaces = Some b
              \<and> Meta_interfaceProperties d b interfaces = Some ps)) (m_extends interface) pss"
    by (rule list_all2_mono) (use Suc.IH d(2) in blast)
  with pss(2) show ?case
    unfolding d(1) Meta_interfaceProperties_Suc fold_appendBase_Some by blast
qed


lemma Meta_flattened_interfaceProperties:
  "Meta_flattened interfaces interface ps \<Longrightarrow>
   \<exists>depth. Meta_interfaceProperties depth interface interfaces = Some ps"
proof (induction rule: Meta_flattened.induct)
  case (1 interface pss)
  from 1 have "list_all2 (\<lambda>e ps. (find (\<lambda>i. m_name i = m_value e) interfaces = None \<and> ps = [])
        \<or> (\<exists>b. find (\<lambda>i. m_name i = m_value e) interfaces = Some b
              \<and> (\<exists>depth. Meta_interfaceProperties depth b interfaces = Some ps)))
      (m_extends interface) pss"
    by (rule list_all2_mono) blast
  then have "\<exists>depth. list_all2 (\<lambda>e ps. (find (\<lambda>i. m_name i = m_value e) interfaces = None \<and> ps = [])
        \<or> (\<exists>b. find (\<lambda>i. m_name i = m_value e) interfaces = Some b
              \<and> Meta_interfaceProperties depth b interfaces = Some ps)) (m_extends interface) pss"
    by (rule list_all2_common_depth
        [where f = "\<lambda>depth b. Meta_interfaceProperties depth b interfaces"
           and L = "\<lambda>e. find (\<lambda>i. m_name i = m_value e) interfaces"
           and A = "\<lambda>e ps. find (\<lambda>i. m_name i = m_value e) interfaces = None \<and> ps = []"])
      (rule Meta_interfaceProperties_mono)
  then obtain depth where "list_all2 (\<lambda>e ps. (find (\<lambda>i. m_name i = m_value e) interfaces = None \<and> ps = [])
        \<or> (\<exists>b. find (\<lambda>i. m_name i = m_value e) interfaces = Some b
              \<and> Meta_interfaceProperties depth b interfaces = Some ps)) (m_extends interface) pss"
    by blast
  then have "Meta_interfaceProperties (Suc depth) interface interfaces
      = Some (Meta_ownProperties interface @ concat pss)"
    unfolding Meta_interfaceProperties_Suc fold_appendBase_Some by blast
  then show ?case
    by blast
qed


text \<open>
  Claim C5, as it is stated, fails in the table-driven writer, which removes every
  \<open>readonly\<close> modifier from a property name besides the optional mark: the property
  \<open>readonly version?\<close> is listed as \<open>version\<close>, not as \<open>readonly version\<close>.
\<close>

theorem readonly_counterexample:
  "interfaceProperties 1 readonlyInterface [readonlyInterface] = Some [''version'']
   \<and> map (removeChar (CHR ''?'') \<circ> p_name) (i_properties readonlyInterface)
       = [''readonly version'']"
  by (simp add: readonlyInterface_def ownProperties_def removeChar_def)

text \<open>
  Claim C5, amended.  \<^verbatim>\<open>interfaceProperties\<close> returns a list exactly when the description
  of the specification determines one, and then it returns that list: the own property
  names in declared order (in the meta-model writer those of the items that are not nested
  interfaces, without the optional mark; in the table-driven writer those of the properties,
  without the optional mark and without the \<open>readonly\<close> modifier), followed, for every entry
  of \<^verbatim>\<open>extends\<close> in order, by the flattened list of the first top-level interface of that
  name, and by nothing for an entry that names no top-level interface.  For \<open>Child\<close>
  extending \<open>Parent\<close> with the properties \<open>p3\<close> and \<open>p1\<close>, \<open>p2\<close> the list is
  \<open>[p3, p1, p2]\<close>.
\<close>

theorem flattened_properties:
  "((\<exists>depth. interfaceProperties depth interface interfaces = Some ps)
      \<longleftrightarrow> flattened interfaces interface ps)
   \<and> ((\<exists>depth. Meta_interfaceProperties depth minterface minterfaces = Some ps)
      \<longleftrightarrow> Meta_flattened minterfaces minterface ps)
   \<and> interfaceProperties 2 childInterface [parentInterface, childInterface]
       = Some [''p3'', ''p1'', ''p2'']
   \<and> Meta_interfaceProperties 2 metaChild [metaParent, metaChild]
       = Some [''p3'', ''p1'', ''p2'']"
proof -
  have "interfaceProperties 2 childInterface [parentInterface, childInterface]
      = Some [''p3'', ''p1'', ''p2'']"
    by (simp add: numeral_2_eq_2 childInterface_def parentInterface_def ownProperties_def
        removeChar_def)
  moreover have "Meta_interfaceProperties 2 metaChild [metaParent, metaChild]
      = Some [''p3'', ''p1'', ''p2'']"
    by (simp add: numeral_2_eq_2 metaChild_def metaParent_def Meta_ownProperties_def
        removeChar_def)
  ultimately show ?thesis
    using interfaceProperties_flattened flattened_interfaceProperties
      Meta_interfaceProperties_flattened Meta_flattened_interfaceProperties
    by blast
qed

theorem flattened_properties_witness:
  "flattened [parentInterface, childInterface] childInterface [''p3'', ''p1'', ''p2'']
   \<and> Meta_flattened [metaParent, metaChild] metaChild [''p3'', ''p1'', ''p2'']"
  using flattened_properties [of childInterface "[parentInterface, childInterface]"
      "[''p3'', ''p1'', ''p2'']" metaChild "[metaParent, metaChild]"]
  by blast

subsection \<open>Normalisation\<close>

lemma those_map_Some:
  "those (map f xs) = Some ys \<longleftrightarrow> list_all2 (\<lambda>x y. f x = Some y) xs ys"
proof (induction xs arbitrary: ys)
  case Nil
  then show ?case by auto
next
  case (Cons x xs)
  then show ?case
    by (cases "f x"; cases "those (map f xs)") (auto simp: list_all2_Cons1)
qed

lemma those_map_fixed:
  assumes "those (map f xs) = Some ys" and "\<And>x y. f x = Some y \<Longrightarrow> f y = Some y"
  shows "those (map f ys) = Some ys"
proof -
  from assms(1) have "list_all2 (\<lambda>x y. f x = Some y) xs ys"
    by (simp add: those_map_Some)
  then have "list_all2 (\<lambda>x y. f x = Some y) ys ys"
    by (induction rule: list_all2_induct) (auto intro: assms(2))
  then show ?thesis
    by (simp add: those_map_Some)
qed

lemma toUpper_idem: "toUpper (toUpper c) = toUpper c"
proof (cases "97 \<le> (of_char c :: nat) \<and> (of_char c :: nat) \<le> 122")
  case True
  then have tc: "toUpper c = char_of ((of_char c :: nat) - 32)"
    by (simp add: toUpper_def Let_def)
  from True have "(of_char c :: nat) - 32 < 256"
    by arith
  then have "(of_char (char_of ((of_char c :: nat) - 32)) :: nat) = of_char c - 32"
    by simp
  moreover from True have "\<not> (97 \<le> (of_char c :: nat) - 32 \<and> (of_char c :: nat) - 32 \<le> 122)"
    by arith
  ultimately have "toUpper (char_of ((of_char c :: nat) - 32)) = char_of ((of_char c :: nat) - 32)"
    by (simp only: toUpper_def Let_def if_False)
  then show ?thesis
    by (simp only: tc)
next
  case False
  then have "toUpper c = c"
    by (auto simp: toUpper_def Let_def)
  then show ?thesis
    by (simp only:)
qed

lemma upperFirst_idem: "upperFirst s = Some s' \<Longrightarrow> upperFirst s' = Some s'"
  by (auto simp: upperFirst_def toUpper_idem split: list.splits)

lemma removeChar_idem: "removeChar c (removeChar c s) = removeChar c s"
  by (simp add: removeChar_def)

lemma cleanValue_idem:
  assumes "cleanValue b v = Some v'"
  shows "cleanValue b v' = Some v'"
proof -
  from assms obtain n where n: "upperFirst (v_name v) = Some n"
    by (auto simp: cleanValue_def split: option.splits)
  have n': "upperFirst n = Some n"
    using n by (rule upperFirst_idem)
  show ?thesis
  proof (cases b)
    case True
    with assms n have "v' = v\<lparr>v_name := n, v_value := removeChar squote (v_value v)\<rparr>"
      by (simp add: cleanValue_def)
    with True n' show ?thesis
      by (simp add: cleanValue_def removeChar_idem)
  next
    case False
    with assms n obtain w where w: "upperFirst (v_value v) = Some w"
      by (auto simp: cleanValue_def split: option.splits)
    have w': "upperFirst w = Some w"
      using w by (rule upperFirst_idem)
    from False assms n w have "v' = v\<lparr>v_name := n, v_value := w\<rparr>"
      by (simp add: cleanValue_def)
    with False n' w' show ?thesis
      by (simp add: cleanValue_def)
  qed
qed

lemma Meta_cleanValue_idem:
  assumes "Meta_cleanValue b v = Some v'"
  shows "Meta_cleanValue b v' = Some v'"
proof -
  from assms obtain n where n: "upperFirst (mv_name v) = Some n"
    by (auto simp: Meta_cleanValue_def split: option.splits)
  have n': "upperFirst n = Some n"
    using n by (rule upperFirst_idem)
  show ?thesis
  proof (cases "b = Enum_String")
    case True
    with assms n have "v' = v\<lparr>mv_name := n\<rparr>"
      by (simp add: Meta_cleanValue_def)
    with True n' show ?thesis
      by (simp add: Meta_cleanValue_def)
  next
    case False
    with assms n obtain w where w: "upperFirst (mv_value v) = Some w"
      by (auto simp: Meta_cleanValue_def split: option.splits)
    have w': "upperFirst w = Some w"
      using w by (rule upperFirst_idem)
    from False assms n w have "v' = v\<lparr>mv_name := n, mv_value := w\<rparr>"
      by (simp add: Meta_cleanValue_def)
    with False n' w' show ?thesis
      by (simp add: Meta_cleanValue_def)
  qed
qed

lemma renameEnum_idem: "renameEnum (renameEnum n) = renameEnum n"
  by (simp add: renameEnum_def specialEnumNames_def)

lemma cleanEnumeration_idem:
  assumes "cleanEnumeration e = Some e'"
  shows "cleanEnumeration e' = Some e'" and "e_name e' = renameEnum (e_name e)"
proof -
  from assms obtain vs where vs: "those (map (cleanValue (e_isString e)) (e_values e)) = Some vs"
    "e' = e\<lparr>e_name := renameEnum (e_name e), e_values := vs\<rparr>"
    by (auto simp: cleanEnumeration_def split: option.splits)
  have "those (map (cleanValue (e_isString e)) vs) = Some vs"
    using vs(1) by (rule those_map_fixed) (rule cleanValue_idem)
  then show "cleanEnumeration e' = Some e'"
    by (simp add: cleanEnumeration_def vs(2) renameEnum_idem)
  show "e_name e' = renameEnum (e_name e)"
    by (simp add: vs(2))
qed

lemma Meta_cleanEnumeration_idem:
  assumes "Meta_cleanEnumeration e = Some e'"
  shows "Meta_cleanEnumeration e' = Some e'" and "me_name e' = renameEnum (me_name e)"
proof -
  from assms obtain vs where vs: "those (map (Meta_cleanValue (me_type e)) (me_values e)) = Some vs"
    "e' = e\<lparr>me_name := renameEnum (me_name e), me_values := vs\<rparr>"
    by (auto simp: Meta_cleanEnumeration_def split: option.splits)
  have "those (map (Meta_cleanValue (me_type e)) vs) = Some vs"
    using vs(1) by (rule those_map_fixed) (rule Meta_cleanValue_idem)
  then show "Meta_cleanEnumeration e' = Some e'"
    by (simp add: Meta_cleanEnumeration_def vs(2) renameEnum_idem)
  show "me_name e' = renameEnum (me_name e)"
    by (simp add: vs(2))
qed

lemma removeDuplicates_names:
  "nm ` set (removeDuplicates nm seen xs) = nm ` set xs - set seen"
  "distinct (map nm (removeDuplicates nm seen xs))"
  by (induction nm seen xs rule: removeDuplicates.induct) auto

lemma removeDuplicates_distinct:
  "distinct (map nm xs) \<Longrightarrow> set (map nm xs) \<inter> set seen = {} \<Longrightarrow> removeDuplicates nm seen xs = xs"
  by (induction nm seen xs rule: removeDuplicates.induct) auto

lemma renameEnum_inj:
  assumes "\<not> (''InitializeError'' \<in> N \<and> ''InitializeErrorCodes'' \<in> N)"
  shows "inj_on renameEnum N"
  using assms
  by (auto simp: inj_on_def renameEnum_def specialEnumNames_def split: if_splits)

lemma those_names:
  assumes "those (map f xs) = Some ys" and "\<And>x y. f x = Some y \<Longrightarrow> nm y = g (nm x)"
  shows "map nm ys = map g (map nm xs)"
proof -
  from assms(1) have "list_all2 (\<lambda>x y. f x = Some y) xs ys"
    by (simp add: those_map_Some)
  then show ?thesis
    by (induction rule: list_all2_induct) (auto dest: assms(2))
qed

lemma removeAllNames_idem: "removeAllNames ns (removeAllNames ns ds) = removeAllNames ns ds"
  by (simp add: removeAllNames_def)

lemma pruneType_idem: "pruneType ns (pruneType ns t) = pruneType ns t"
  by (simp add: pruneType_def removeAllNames_idem)

lemma pruneInterface_idem: "pruneInterface ns (pruneInterface ns i) = pruneInterface ns i"
  by (cases i) (simp add: removeAllNames_idem)

lemma Meta_prune_idem: "Meta_prune ns (Meta_prune ns t) = Meta_prune ns t"
  by (cases t) (simp add: removeAllNames_idem)

lemma filter_map_keep:
  assumes "\<And>x. P (f x) = P x"
  shows "filter P (map f (filter P xs)) = map f (filter P xs)"
  by (induction xs) (auto simp: assms)

lemma cleanCode_idem:
  assumes ok: "cleanCode d = Some d'"
    and no: "\<not> (''InitializeError'' \<in> e_name ` set (d_enumerations d)
               \<and> ''InitializeErrorCodes'' \<in> e_name ` set (d_enumerations d))"
  shows "cleanCode d' = Some d'"
proof -
  let ?dedup = "removeDuplicates e_name [] (d_enumerations d)"
  from ok obtain enums where enums: "those (map cleanEnumeration ?dedup) = Some enums"
    by (auto simp: cleanCode_def split: option.splits)
  let ?names = "map e_name enums"
  let ?ifaces = "filter (\<lambda>i. i_name i \<notin> removeStructNames) (d_interfaces d)"
  let ?types1 = "filter (\<lambda>t. t_name t \<notin> removeTypeNames) (d_types d)"
  let ?types2 = "filter (\<lambda>t. t_name t \<notin> set (?names @ map i_name ?ifaces)) ?types1"
  from ok enums have d': "d' = d\<lparr>d_enumerations := enums,
      d_types := map (pruneType ?names) ?types2,
      d_interfaces := map (pruneInterface ?names) ?ifaces\<rparr>"
    by (simp add: cleanCode_def Let_def)
  have names: "?names = map renameEnum (map e_name ?dedup)"
    using enums by (rule those_names) (rule cleanEnumeration_idem(2))
  have "set (map e_name ?dedup) = e_name ` set (d_enumerations d)"
    by (simp add: removeDuplicates_names(1))
  with no have "inj_on renameEnum (set (map e_name ?dedup))"
    by (intro renameEnum_inj) simp
  moreover have "distinct (map e_name ?dedup)"
    by (rule removeDuplicates_names(2))
  ultimately have "distinct (map renameEnum (map e_name ?dedup))"
    by (metis distinct_map)
  then have "distinct ?names"
    by (simp only: names)
  then have dd: "removeDuplicates e_name [] enums = enums"
    by (simp add: removeDuplicates_distinct)
  have fixd: "those (map cleanEnumeration enums) = Some enums"
    using enums by (rule those_map_fixed) (rule cleanEnumeration_idem(1))
  have i: "filter (\<lambda>i. i_name i \<notin> removeStructNames) (map (pruneInterface ?names) ?ifaces)
      = map (pruneInterface ?names) ?ifaces"
    by (rule filter_map_keep) simp
  have inames: "map i_name (map (pruneInterface ?names) ?ifaces) = map i_name ?ifaces"
    by (simp add: comp_def)
  have t1: "filter (\<lambda>t. t_name t \<notin> removeTypeNames) (map (pruneType ?names) ?types2)
      = map (pruneType ?names) ?types2"
    by (rule filter_True) auto
  have t2: "filter (\<lambda>t. t_name t \<notin> set (?names @ map i_name ?ifaces)) (map (pruneType ?names) ?types2)
      = map (pruneType ?names) ?types2"
    by (rule filter_True) auto
  show ?thesis
    unfolding cleanCode_def d'
    by (simp add: dd fixd Let_def i inames t1 t2 pruneType_idem pruneInterface_idem comp_def
        del: set_append map_append)
qed

lemma Meta_cleanCode_idem:
  assumes ok: "Meta_cleanCode d = Some d'"
    and no: "\<not> (''InitializeError'' \<in> me_name ` set (md_enumerations d)
               \<and> ''InitializeErrorCodes'' \<in> me_name ` set (md_enumerations d))"
  shows "Meta_cleanCode d' = Some d'"
proof -
  let ?dedup = "removeDuplicates me_name [] (md_enumerations d)"
  from ok obtain enums where enums: "those (map Meta_cleanEnumeration ?dedup) = Some enums"
    by (auto simp: Meta_cleanCode_def split: option.splits)
  let ?names = "map me_name enums"
  let ?ifaces = "filter (\<lambda>i. m_name i \<notin> removeStructNames) (md_interfaces d)"
  let ?types1 = "filter (\<lambda>t. m_name t \<notin> removeTypeNames) (md_types d)"
  let ?types2 = "filter (\<lambda>t. m_name t \<notin> set (?names @ map m_name ?ifaces)) ?types1"
  from ok enums have d': "d' = d\<lparr>md_enumerations := enums,
      md_types := map (Meta_prune ?names) ?types2,
      md_interfaces := map (Meta_prune ?names) ?ifaces\<rparr>"
    by (simp add: Meta_cleanCode_def Let_def)
  have names: "?names = map renameEnum (map me_name ?dedup)"
    using enums by (rule those_names) (rule Meta_cleanEnumeration_idem(2))
  have "set (map me_name ?dedup) = me_name ` set (md_enumerations d)"
    by (simp add: removeDuplicates_names(1))
  with no have "inj_on renameEnum (set (map me_name ?dedup))"
    by (intro renameEnum_inj) simp
  moreover have "distinct (map me_name ?dedup)"
    by (rule removeDuplicates_names(2))
  ultimately have "distinct (map renameEnum (map me_name ?dedup))"
    by (metis distinct_map)
  then have "distinct ?names"
    by (simp only: names)
  then have dd: "removeDuplicates me_name [] enums = enums"
    by (simp add: removeDuplicates_distinct)
  have fixd: "those (map Meta_cleanEnumeration enums) = Some enums"
    using enums by (rule those_map_fixed) (rule Meta_cleanEnumeration_idem(1))
  have i: "filter (\<lambda>i. m_name i \<notin> removeStructNames) (map (Meta_prune ?names) ?ifaces)
      = map (Meta_prune ?names) ?ifaces"
    by (rule filter_map_keep) simp
  have inames: "map m_name (map (Meta_prune ?names) ?ifaces) = map m_name ?ifaces"
    by (simp add: comp_def)
  have t1: "filter (\<lambda>t. m_name t \<notin> removeTypeNames) (map (Meta_prune ?names) ?types2)
      = map (Meta_prune ?names) ?types2"
    by (rule filter_True) auto
  have t2: "filter (\<lambda>t. m_name t \<notin> set (?names @ map m_name ?ifaces)) (map (Meta_prune ?names) ?types2)
      = map (Meta_prune ?names) ?types2"
    by (rule filter_True) auto
  show ?thesis
    unfolding Meta_cleanCode_def d'
    by (simp add: dd fixd Let_def i inames t1 t2 Meta_prune_idem comp_def
        del: set_append map_append)
qed


text \<open>
  Claim C8, as it is stated, fails: the duplicates are removed before the enumerations are
  renamed.  With the enumerations \<open>InitializeError\<close> and \<open>InitializeErrorCodes\<close> the first
  pass leaves two enumerations of the name \<open>InitializeErrorCodes\<close>, and the second pass
  removes the second of them.
\<close>

theorem normalisation_counterexample:
  "map_option (map e_name \<circ> d_enumerations) (cleanCode clashData)
     = Some [''InitializeErrorCodes'', ''InitializeErrorCodes'']
   \<and> map_option (map e_name \<circ> d_enumerations) (Option.bind (cleanCode clashData) cleanCode)
     = Some [''InitializeErrorCodes'']
   \<and> Option.bind (cleanCode clashData) cleanCode \<noteq> cleanCode clashData"
proof -
  have u: "upperFirst ''unknownProtocolVersion'' = Some ''UnknownProtocolVersion''"
    "upperFirst ''UnknownProtocolVersion'' = Some ''UnknownProtocolVersion''"
    "upperFirst ''1'' = Some ''1''"
    by code_simp+
  have 1: "cleanCode clashData = Some (clashData\<lparr>d_enumerations :=
       [\<lparr>e_name = ''InitializeErrorCodes'', e_comment = [], e_isString = False,
          e_values = [\<lparr>v_name = ''UnknownProtocolVersion'', v_value = ''1'', v_comment = []\<rparr>]\<rparr>,
        \<lparr>e_name = ''InitializeErrorCodes'', e_comment = [], e_isString = False, e_values = []\<rparr>]\<rparr>)"
    by (simp add: clashData_def cleanCode_def cleanEnumeration_def cleanValue_def u
        renameEnum_def specialEnumNames_def Let_def)
  have 2: "cleanCode (clashData\<lparr>d_enumerations :=
       [\<lparr>e_name = ''InitializeErrorCodes'', e_comment = [], e_isString = False,
          e_values = [\<lparr>v_name = ''UnknownProtocolVersion'', v_value = ''1'', v_comment = []\<rparr>]\<rparr>,
        \<lparr>e_name = ''InitializeErrorCodes'', e_comment = [], e_isString = False, e_values = []\<rparr>]\<rparr>)
     = Some (clashData\<lparr>d_enumerations :=
       [\<lparr>e_name = ''InitializeErrorCodes'', e_comment = [], e_isString = False,
          e_values = [\<lparr>v_name = ''UnknownProtocolVersion'', v_value = ''1'', v_comment = []\<rparr>]\<rparr>]\<rparr>)"
    by (simp add: clashData_def cleanCode_def cleanEnumeration_def cleanValue_def u
        renameEnum_def specialEnumNames_def Let_def)
  show ?thesis
    unfolding 1 by (simp add: 2) (simp add: clashData_def)
qed

text \<open>
  Claim C8, amended.  On every model that does not have both an enumeration named
  \<open>InitializeError\<close> and one named \<open>InitializeErrorCodes\<close>, normalising twice gives what
  normalising once gives, in both writers (also when the normalisation stops at an
  enumeration value with an empty name: then both sides stop).
\<close>

theorem normalisation_idempotent:
  "(\<not> (''InitializeError'' \<in> e_name ` set (d_enumerations d)
        \<and> ''InitializeErrorCodes'' \<in> e_name ` set (d_enumerations d))
     \<longrightarrow> Option.bind (cleanCode d) cleanCode = cleanCode d)
   \<and> (\<not> (''InitializeError'' \<in> me_name ` set (md_enumerations md)
        \<and> ''InitializeErrorCodes'' \<in> me_name ` set (md_enumerations md))
     \<longrightarrow> Option.bind (Meta_cleanCode md) Meta_cleanCode = Meta_cleanCode md)"
proof (intro conjI impI)
  assume "\<not> (''InitializeError'' \<in> e_name ` set (d_enumerations d)
        \<and> ''InitializeErrorCodes'' \<in> e_name ` set (d_enumerations d))"
  then show "Option.bind (cleanCode d) cleanCode = cleanCode d"
    by (cases "cleanCode d") (simp_all add: cleanCode_idem)
next
  assume "\<not> (''InitializeError'' \<in> me_name ` set (md_enumerations md)
        \<and> ''InitializeErrorCodes'' \<in> me_name ` set (md_enumerations md))"
  then show "Option.bind (Meta_cleanCode md) Meta_cleanCode = Meta_cleanCode md"
    by (cases "Meta_cleanCode md") (simp_all add: Meta_cleanCode_idem)
qed

theorem normalisation_idempotent_witness:
  "map_option (\<lambda>d. (map e_name (d_enumerations d), map t_name (d_types d),
       map i_dependencies (d_interfaces d))) (cleanCode normalData)
     = Some ([''InitializeErrorCodes'', ''MarkupKind''], [''Kinds''], [[''Kinds'']])
   \<and> Option.bind (cleanCode normalData) cleanCode = cleanCode normalData"
proof -
  have u: "upperFirst ''unknownProtocolVersion'' = Some ''UnknownProtocolVersion''"
    "upperFirst ''plainText'' = Some ''PlainText''"
    "upperFirst ''1'' = Some ''1''"
    by code_simp+
  have "\<not> (''InitializeError'' \<in> e_name ` set (d_enumerations normalData)
        \<and> ''InitializeErrorCodes'' \<in> e_name ` set (d_enumerations normalData))"
    by (simp add: normalData_def)
  with normalisation_idempotent [of normalData]
  have "Option.bind (cleanCode normalData) cleanCode = cleanCode normalData"
    by blast
  moreover have "map_option (\<lambda>d. (map e_name (d_enumerations d), map t_name (d_types d),
       map i_dependencies (d_interfaces d))) (cleanCode normalData)
     = Some ([''InitializeErrorCodes'', ''MarkupKind''], [''Kinds''], [[''Kinds'']])"
    by (simp add: normalData_def cleanCode_def cleanEnumeration_def cleanValue_def u
        renameEnum_def specialEnumNames_def Let_def removeStructNames_def
        removeTypeNames_def removeAllNames_def pruneType_def removeChar_def squote_def)
  ultimately show ?thesis
    by blast
qed

end
